theory Spec2Isabelle
  imports Main
begin

section \<open>JavaScript values\<close>

text \<open>
  A JavaScript string is a sequence of UTF-16 code units; \<open>length\<close>, \<open>substring\<close>,
  \<open>startsWith\<close> and \<open>split\<close> count code units. Here a \<^typ>\<open>char\<close> stands for one code
  unit, so the model covers the texts whose code units lie below 256. The emoji of the
  bot's fixed replies lie outside that range; they are written as their UTF-8 bytes,
  and no code measures the length of a fixed reply.
\<close>

text \<open>
  An \<open>Error\<close> object, as far as the handlers use it: its kind and its \<open>message\<close>.
  \<open>TypeError\<close> is what the engine throws when a property of \<open>undefined\<close> is read.
\<close>

datatype js_error = Error string | TypeError string

fun message :: "js_error \<Rightarrow> string" where
  "message (Error m) = m"
| "message (TypeError m) = m"

text \<open>
  The numbers the handlers compute with: the results of \<open>parseInt\<close> (an integer or
  \<open>NaN\<close>) and what \<open>linkId - 1\<close> makes of them. Every comparison with \<open>NaN\<close> is false.
\<close>

datatype jsnum = NaN | Num int

fun isNaN :: "jsnum \<Rightarrow> bool" where
  "isNaN NaN = True"
| "isNaN (Num _) = False"

fun js_minus1 :: "jsnum \<Rightarrow> jsnum" where
  "js_minus1 NaN = NaN"
| "js_minus1 (Num i) = Num (i - 1)"

fun js_lt :: "jsnum \<Rightarrow> int \<Rightarrow> bool" where
  "js_lt NaN _ = False"
| "js_lt (Num i) k = (i < k)"

fun js_ge :: "jsnum \<Rightarrow> int \<Rightarrow> bool" where
  "js_ge NaN _ = False"
| "js_ge (Num i) k = (i \<ge> k)"

text \<open>\<open>xs[i]\<close>: \<open>undefined\<close> (here \<open>None\<close>) unless \<open>i\<close> is an index of the array.\<close>

fun js_index :: "'a list \<Rightarrow> jsnum \<Rightarrow> 'a option" where
  "js_index xs NaN = None"
| "js_index xs (Num i) = (if 0 \<le> i \<and> i < int (length xs) then Some (xs ! nat i) else None)"

text \<open>\<open>xs.slice(0, e)\<close>: a negative \<open>e\<close> counts from the end of the array.\<close>

definition js_slice0 :: "'a list \<Rightarrow> int \<Rightarrow> 'a list" where
  "js_slice0 xs e = (if e < 0 then take (nat (int (length xs) + e)) xs else take (nat e) xs)"

text \<open>
  \<open>s.substring(a, b)\<close>: both ends are clamped to \<open>0..length\<close> and swapped when
  \<open>a > b\<close>.
\<close>

definition clamp_index :: "'a list \<Rightarrow> int \<Rightarrow> nat" where
  "clamp_index s i = (if i < 0 then 0 else min (nat i) (length s))"

definition substring :: "'a list \<Rightarrow> int \<Rightarrow> int \<Rightarrow> 'a list" where
  "substring s a b =
     (let a' = clamp_index s a; b' = clamp_index s b
      in take (max a' b' - min a' b') (drop (min a' b') s))"

text \<open>\<open>s.startsWith(p)\<close>, \<open>s.endsWith(p)\<close> and \<open>s.includes(p)\<close>.\<close>

definition startsWith :: "string \<Rightarrow> string \<Rightarrow> bool" where
  "startsWith s p = (take (length p) s = p)"

definition endsWith :: "string \<Rightarrow> string \<Rightarrow> bool" where
  "endsWith s p = (length p \<le> length s \<and> drop (length s - length p) s = p)"

fun includes_str :: "string \<Rightarrow> string \<Rightarrow> bool" where
  "includes_str [] p = (p = [])"
| "includes_str (c # s) p = (take (length p) (c # s) = p \<or> includes_str s p)"

text \<open>
  White space as \<open>trim\<close> and the regular expression class \<open>\s\<close> see it, among the
  code units below 256: tab, line feed, vertical tab, form feed, carriage return,
  space and the no-break space.
\<close>

definition is_space :: "char \<Rightarrow> bool" where
  "is_space c = (c \<in> set [CHR 0x09, CHR 0x0A, CHR 0x0B, CHR 0x0C, CHR 0x0D, CHR 0x20, CHR 0xA0])"

definition trimStart :: "string \<Rightarrow> string" where
  "trimStart s = dropWhile is_space s"

definition trim :: "string \<Rightarrow> string" where
  "trim s = rev (dropWhile is_space (rev (dropWhile is_space s)))"

text \<open>\<open>s.split(/\s+/)\<close>: the pieces between the maximal runs of white space.\<close>

function split_ws :: "string \<Rightarrow> string list" where
  "split_ws s =
     (let tok = takeWhile (\<lambda>c. \<not> is_space c) s;
          rest = dropWhile (\<lambda>c. \<not> is_space c) s
      in if rest = [] then [tok] else tok # split_ws (dropWhile is_space rest))"
  by pat_completeness auto
termination
proof (relation "measure length")
  show "wf (measure length)" by simp
next
  fix s :: string and tok rest
  assume r: "rest = dropWhile (\<lambda>c. \<not> is_space c) s" and ne: "rest \<noteq> []"
  from ne obtain c cs where rc: "rest = c # cs" by (cases rest) auto
  have "dropWhile (\<lambda>c. \<not> is_space c) s \<noteq> []"
    using r ne by simp
  then have "\<not> \<not> is_space (hd (dropWhile (\<lambda>c. \<not> is_space c) s))"
    by (rule hd_dropWhile)
  moreover have "dropWhile (\<lambda>c. \<not> is_space c) s = c # cs"
    using r rc by simp
  ultimately have sp: "is_space c"
    by simp
  have "length (dropWhile is_space rest) \<le> length cs"
    using sp rc by (simp add: length_dropWhile_le)
  moreover have "length rest \<le> length s"
    using r by (simp add: length_dropWhile_le)
  ultimately show "(dropWhile is_space rest, s) \<in> measure length"
    using rc by simp
qed

declare split_ws.simps [simp del]

text \<open>\<open>s.replace(/\s+/g, ' ')\<close>: every maximal run of white space becomes one space.\<close>

function collapse_ws :: "string \<Rightarrow> string" where
  "collapse_ws [] = []"
| "collapse_ws (c # s) =
     (if is_space c then CHR '' '' # collapse_ws (dropWhile is_space s) else c # collapse_ws s)"
  by pat_completeness auto
termination
  by (relation "measure length") (auto simp: length_dropWhile_le less_Suc_eq_le)

text \<open>
  \<open>toLowerCase\<close> on the code units below 256: the letters \<open>A\<close> to \<open>Z\<close> and the
  accented capitals \<open>0xC0\<close> to \<open>0xDE\<close> (without the multiplication sign \<open>0xD7\<close>) move
  up by 32. \<open>asciiLower\<close> is the case folding of a regular expression with the flag
  \<open>i\<close> against a pattern of ASCII letters.
\<close>

definition asciiLowerChar :: "char \<Rightarrow> char" where
  "asciiLowerChar c =
     (case map_of (zip ''ABCDEFGHIJKLMNOPQRSTUVWXYZ'' ''abcdefghijklmnopqrstuvwxyz'') c of
        Some d \<Rightarrow> d | None \<Rightarrow> c)"

definition asciiLower :: "string \<Rightarrow> string" where
  "asciiLower s = map asciiLowerChar s"

definition latin1Upper :: "char list" where
  "latin1Upper =
     [CHR 0xC0, CHR 0xC1, CHR 0xC2, CHR 0xC3, CHR 0xC4, CHR 0xC5, CHR 0xC6, CHR 0xC7,
      CHR 0xC8, CHR 0xC9, CHR 0xCA, CHR 0xCB, CHR 0xCC, CHR 0xCD, CHR 0xCE, CHR 0xCF,
      CHR 0xD0, CHR 0xD1, CHR 0xD2, CHR 0xD3, CHR 0xD4, CHR 0xD5, CHR 0xD6,
      CHR 0xD8, CHR 0xD9, CHR 0xDA, CHR 0xDB, CHR 0xDC, CHR 0xDD, CHR 0xDE]"

definition latin1Lower :: "char list" where
  "latin1Lower =
     [CHR 0xE0, CHR 0xE1, CHR 0xE2, CHR 0xE3, CHR 0xE4, CHR 0xE5, CHR 0xE6, CHR 0xE7,
      CHR 0xE8, CHR 0xE9, CHR 0xEA, CHR 0xEB, CHR 0xEC, CHR 0xED, CHR 0xEE, CHR 0xEF,
      CHR 0xF0, CHR 0xF1, CHR 0xF2, CHR 0xF3, CHR 0xF4, CHR 0xF5, CHR 0xF6,
      CHR 0xF8, CHR 0xF9, CHR 0xFA, CHR 0xFB, CHR 0xFC, CHR 0xFD, CHR 0xFE]"

definition toLowerCaseChar :: "char \<Rightarrow> char" where
  "toLowerCaseChar c =
     (case map_of (zip latin1Upper latin1Lower) c of
        Some d \<Rightarrow> d | None \<Rightarrow> asciiLowerChar c)"

definition toLowerCase :: "string \<Rightarrow> string" where
  "toLowerCase s = map toLowerCaseChar s"

text \<open>
  \<open>String(n)\<close> for an integer, and for the numbers of the handlers. Every digit is
  printed (the engine prints a double, so its text differs for integers of 16 or
  more digits).
\<close>

definition digit_char :: "nat \<Rightarrow> char" where
  "digit_char d = ''0123456789'' ! (d mod 10)"

fun show_nat :: "nat \<Rightarrow> string" where
  "show_nat n = (if n < 10 then [digit_char n] else show_nat (n div 10) @ [digit_char (n mod 10)])"

declare show_nat.simps [simp del]

definition show_int :: "int \<Rightarrow> string" where
  "show_int i = (if i < 0 then CHR ''-'' # show_nat (nat (- i)) else show_nat (nat i))"

fun show_num :: "jsnum \<Rightarrow> string" where
  "show_num NaN = ''NaN''"
| "show_num (Num i) = show_int i"

text \<open>
  \<open>parseInt(s)\<close> with no radix: leading white space and one sign are skipped, a prefix
  \<open>0x\<close> or \<open>0X\<close> selects radix 16, and the longest run of digits is read; no digit
  gives \<open>NaN\<close>. The value is the exact integer (the engine rounds it to a double
  beyond \<open>2^53\<close>).
\<close>

definition digit_val :: "char \<Rightarrow> nat option" where
  "digit_val c =
     map_of (zip ''0123456789abcdefABCDEF''
       [0, 1, 2, 3, 4, 5, 6, 7, 8, 9, 10, 11, 12, 13, 14, 15, 10, 11, 12, 13, 14, 15]) c"

definition is_digit :: "nat \<Rightarrow> char \<Rightarrow> bool" where
  "is_digit radix c = (case digit_val c of Some d \<Rightarrow> d < radix | None \<Rightarrow> False)"

definition digits_value :: "nat \<Rightarrow> string \<Rightarrow> nat" where
  "digits_value radix ds = foldl (\<lambda>acc c. acc * radix + the (digit_val c)) 0 ds"

definition parseInt :: "string option \<Rightarrow> jsnum" where
  "parseInt arg =
     (case arg of
        None \<Rightarrow> NaN
      | Some s \<Rightarrow>
          (let s1 = trimStart s;
               neg = (s1 \<noteq> [] \<and> hd s1 = CHR ''-'');
               s2 = (if s1 \<noteq> [] \<and> (hd s1 = CHR ''+'' \<or> hd s1 = CHR ''-'') then tl s1 else s1);
               hex = (take 2 s2 = ''0x'' \<or> take 2 s2 = ''0X'');
               radix = (if hex then 16 else 10);
               s3 = (if hex then drop 2 s2 else s2);
               z = takeWhile (is_digit radix) s3
           in if z = [] then NaN
              else Num ((if neg then - 1 else 1) * int (digits_value radix z))))"

text \<open>\<open>a || b\<close> on optional strings: \<open>undefined\<close> and the empty string are falsy.\<close>

fun truthy :: "string option \<Rightarrow> bool" where
  "truthy None = False"
| "truthy (Some s) = (s \<noteq> [])"

definition js_or :: "string option \<Rightarrow> string option \<Rightarrow> string option" where
  "js_or a b = (if truthy a then a else b)"

text \<open>A template literal prints a missing value as \<open>undefined\<close>.\<close>

fun str_of :: "string option \<Rightarrow> string" where
  "str_of None = ''undefined''"
| "str_of (Some s) = s"

section \<open>Web search service: search results\<close>

text \<open>
  The service's configuration, as its constructor sets it up: the provider key, the
  number of organic results kept (5 by default) and the length of the first view of a
  page, which is also the chunk size of \<open>more\<close> (1000 by default).
\<close>

record config =
  serperApiKey :: "string option"
  searchResultsLimit :: int
  contentSummaryLength :: int

definition default_config :: "string option \<Rightarrow> config" where
  "default_config key =
     \<lparr>serperApiKey = key, searchResultsLimit = 5, contentSummaryLength = 1000\<rparr>"

text \<open>
  The provider's response. A section that is missing (or, for the two arrays, is not
  an array) is \<open>None\<close>. An organic entry carries its title, link, snippet and position.
\<close>

record raw_result =
  raw_title :: string
  raw_link :: string
  raw_snippet :: string
  raw_position :: int

record raw_knowledge =
  kg_title :: "string option"
  kg_type :: "string option"
  kg_description :: "string option"
  kg_attributes :: "(string \<times> string) list option"

record raw_answer =
  ab_title :: "string option"
  ab_answer :: "string option"
  ab_snippet :: "string option"

record raw_question =
  paa_question :: "string option"
  paa_answer :: "string option"

record search_data =
  organic :: "raw_result list option"
  knowledgeGraph :: "raw_knowledge option"
  answerBox :: "raw_answer option"
  peopleAlsoAsk :: "raw_question list option"

text \<open>The formatted result set that the service stores for a user.\<close>

record organic_result =
  res_id :: int
  res_title :: string
  res_link :: string
  res_snippet :: string
  res_position :: int

record search_results =
  res_organic :: "organic_result list"
  res_knowledge :: "raw_knowledge option"
  res_answerBox :: "raw_answer option"
  res_peopleAlsoAsk :: "raw_question list"

text \<open>\<open>xs.map((result, index) => ...)\<close>: the callback sees the element and its index.\<close>

fun map_index :: "(nat \<Rightarrow> 'a \<Rightarrow> 'b) \<Rightarrow> nat \<Rightarrow> 'a list \<Rightarrow> 'b list" where
  "map_index f i [] = []"
| "map_index f i (x # xs) = f i x # map_index f (Suc i) xs"

definition stamp :: "nat \<Rightarrow> raw_result \<Rightarrow> organic_result" where
  "stamp index result =
     \<lparr>res_id = int index + 1, res_title = raw_title result, res_link = raw_link result,
      res_snippet = raw_snippet result, res_position = raw_position result\<rparr>"

text \<open>The part of a stored result that comes from the provider unchanged.\<close>

definition payload :: "organic_result \<Rightarrow> raw_result" where
  "payload r =
     \<lparr>raw_title = res_title r, raw_link = res_link r, raw_snippet = res_snippet r,
      raw_position = res_position r\<rparr>"

definition formatSearchResults :: "config \<Rightarrow> search_data \<Rightarrow> search_results" where
  "formatSearchResults cfg searchData =
     \<lparr>res_organic =
        (case organic searchData of
           None \<Rightarrow> []
         | Some rs \<Rightarrow> map_index stamp 0 (js_slice0 rs (searchResultsLimit cfg))),
      res_knowledge = knowledgeGraph searchData,
      res_answerBox = answerBox searchData,
      res_peopleAlsoAsk =
        (case peopleAlsoAsk searchData of None \<Rightarrow> [] | Some qs \<Rightarrow> js_slice0 qs 3)\<rparr>"

section \<open>Web search service: pages and links\<close>

text \<open>
  A navigable link, and the content record that \<open>processArticle\<close> builds. The record
  of the fallback branch has only a title, a text and the URL: the other fields are
  \<open>undefined\<close> there, here \<open>None\<close>.
\<close>

record link =
  link_text :: string
  link_url :: string

record webpage =
  page_title :: string
  page_siteName :: "string option"
  page_excerpt :: "string option"
  page_textContent :: string
  page_fullTextContent :: "string option"
  page_url :: string
  page_links :: "link list option"

text \<open>The object \<open>{url, content}\<close> that \<open>currentWebpageContent\<close> holds for a user.\<close>

record stored_page =
  stored_url :: string
  stored_content :: webpage

text \<open>
  The fetched document, as the queries of \<open>extractLinks\<close> and \<open>extractSiteName\<close> see
  it. The HTML parser and its selectors belong to a library; the model takes the
  results of the four queries, each in document order:
  \<^item> \<open>doc_anchors\<close>: the elements of \<open>$('a')\<close>, each with its \<open>href\<close>, its text and its
    \<open>title\<close>, \<open>aria-label\<close> and \<open>alt\<close> attributes;
  \<^item> \<open>doc_citations\<close>: the elements of \<open>$('sup.reference, .reference')\<close>, each with the
    \<open>href\<close> of its first link (\<open>None\<close> without such a link or attribute) and with what
    \<open>$('#' + refId).parent().find('a.external')\<close> selects for that \<open>href\<close>: \<open>None\<close> for
    an empty selection or a selector the library rejects, else the \<open>href\<close> of the first
    selected element and the text of the selection;
  \<^item> \<open>doc_references\<close>: the elements of \<open>$('.references a.external')\<close>;
  \<^item> \<open>doc_ogSiteName\<close>: the \<open>content\<close> of the first \<open>og:site_name\<close> meta element.
\<close>

record anchor =
  a_href :: "string option"
  a_text :: string
  a_title :: "string option"
  a_ariaLabel :: "string option"
  a_alt :: "string option"

record citation =
  cite_href :: "string option"
  cite_external :: "(string option \<times> string) option"

record document =
  doc_anchors :: "anchor list"
  doc_citations :: "citation list"
  doc_references :: "anchor list"
  doc_ogSiteName :: "string option"

text \<open>
  The article that the readability library returns for a URL. \<open>art_plainText\<close> is
  what the html-to-text library makes of the article's content, or the error it
  throws.
\<close>

record article =
  art_title :: "string option"
  art_textBody :: "string option"
  art_plainText :: "js_error + string"
  art_document :: "document option"

text \<open>
  The outside world of the service: the search provider's answer to a query, the
  readability library's answer to a URL, and the platform's URL parser
  (\<open>new URL(href, base).href\<close> and \<open>new URL(url).hostname\<close>, \<open>None\<close> when it throws).
\<close>

record env =
  serper :: "string \<Rightarrow> js_error + search_data"
  readability :: "string \<Rightarrow> js_error + article"
  url_href :: "string \<Rightarrow> string \<Rightarrow> string option"
  url_hostname :: "string \<Rightarrow> string option"

subsection \<open>extractLinks\<close>

definition fileExtensions :: "string list" where
  "fileExtensions =
     [''jpg'', ''jpeg'', ''png'', ''gif'', ''bmp'', ''svg'', ''webp'', ''pdf'', ''doc'', ''docx'',
      ''xls'', ''xlsx'', ''ppt'', ''pptx'', ''zip'', ''rar'', ''tar'', ''gz'', ''mp3'', ''mp4'', ''avi'',
      ''mov'', ''wav'', ''flac'', ''ogg'']"

definition nonNavigableSchemes :: "string list" where
  "nonNavigableSchemes = [''javascript:'', ''mailto:'', ''tel:'', ''sms:'', ''data:'', ''blob:'']"

text \<open>
  \<open>shouldExcludeUrl\<close>: the empty string, a non-navigable scheme at the start (any
  letter case), exactly \<open>#\<close>, or a filtered file extension at the end (any letter case).
\<close>

definition shouldExcludeUrl :: "string \<Rightarrow> bool" where
  "shouldExcludeUrl url =
     (url = [] \<or>
      list_ex (\<lambda>p. startsWith (asciiLower url) p) nonNavigableSchemes \<or>
      url = ''#'' \<or>
      list_ex (\<lambda>e. endsWith (asciiLower url) (CHR ''.'' # e)) fileExtensions)"

text \<open>\<open>s.split(c)[0]\<close>: the text before the first \<open>c\<close>.\<close>

definition before_first :: "char \<Rightarrow> string \<Rightarrow> string" where
  "before_first c s = takeWhile (\<lambda>x. x \<noteq> c) s"

text \<open>\<open>href.replace(/^https?:\/\//, '')\<close>.\<close>

definition strip_scheme :: "string \<Rightarrow> string" where
  "strip_scheme href =
     (if startsWith href ''http://'' then drop 7 href
      else if startsWith href ''https://'' then drop 8 href
      else href)"

text \<open>The text of a link of the main pass, with its fallbacks.\<close>

definition anchorText :: "anchor \<Rightarrow> string \<Rightarrow> string" where
  "anchorText a href =
     (let linkText = trim (a_text a);
          linkText' =
            (if linkText = [] \<or> length linkText < 2
             then str_of (js_or (a_title a) (js_or (a_ariaLabel a) (js_or (a_alt a)
                    (js_or (Some (before_first CHR ''/'' (strip_scheme href))) (Some ''Link'')))))
             else linkText)
      in trim (collapse_ws linkText'))"

text \<open>
  The three passes thread the list of links and the set \<open>seenUrls\<close>. An anchor of the
  main pass is skipped without a navigable \<open>href\<close>, when the URL parser throws, when it
  points into the page itself, and when its absolute URL was seen.
\<close>

type_synonym links_state = "link list \<times> string set"

definition mainStep :: "env \<Rightarrow> string \<Rightarrow> links_state \<Rightarrow> anchor \<Rightarrow> links_state" where
  "mainStep e baseUrl ls a =
     (case a_href a of
        None \<Rightarrow> ls
      | Some href \<Rightarrow>
          if href = [] then ls
          else if shouldExcludeUrl href then ls
          else (case url_href e href baseUrl of
                  None \<Rightarrow> ls
                | Some absoluteUrl \<Rightarrow>
                    if before_first CHR ''#'' absoluteUrl = before_first CHR ''#'' baseUrl
                       \<and> startsWith href ''#'' then ls
                    else if absoluteUrl \<in> snd ls then ls
                    else (fst ls @ [\<lparr>link_text = anchorText a href, link_url = absoluteUrl\<rparr>],
                          insert absoluteUrl (snd ls))))"

text \<open>
  A citation marker: the external link of its reference is added unless its \<open>href\<close>
  attribute, as written in the page, is excluded or is in \<open>seenUrls\<close>; the link carries
  the absolute URL, and \<open>seenUrls\<close> receives the attribute as written.
\<close>

definition citationStep ::
  "env \<Rightarrow> string \<Rightarrow> links_state \<Rightarrow> nat \<times> citation \<Rightarrow> links_state" where
  "citationStep e baseUrl ls ic =
     (case cite_href (snd ic) of
        None \<Rightarrow> ls
      | Some href \<Rightarrow>
          if href = [] then ls
          else (case cite_external (snd ic) of
                  None \<Rightarrow> ls
                | Some (None, txt) \<Rightarrow> ls
                | Some (Some externalHref, txt) \<Rightarrow>
                    if externalHref \<noteq> [] \<and> \<not> shouldExcludeUrl externalHref
                       \<and> externalHref \<notin> snd ls
                    then (case url_href e externalHref baseUrl of
                            None \<Rightarrow> ls
                          | Some absoluteUrl \<Rightarrow>
                              (fst ls @
                                 [\<lparr>link_text =
                                     (if trim txt \<noteq> [] then trim txt
                                      else ''Citation '' @ show_nat (fst ic + 1)),
                                   link_url = absoluteUrl\<rparr>],
                               insert externalHref (snd ls)))
                    else ls))"

text \<open>
  A link of the reference list: added unless its \<open>href\<close> as written is excluded or
  seen, the URL parser throws, or its absolute URL was seen.
\<close>

definition referenceStep ::
  "env \<Rightarrow> string \<Rightarrow> links_state \<Rightarrow> nat \<times> anchor \<Rightarrow> links_state" where
  "referenceStep e baseUrl ls ia =
     (case a_href (snd ia) of
        None \<Rightarrow> ls
      | Some href \<Rightarrow>
          if href \<noteq> [] \<and> \<not> shouldExcludeUrl href \<and> href \<notin> snd ls
          then (case url_href e href baseUrl of
                  None \<Rightarrow> ls
                | Some absoluteUrl \<Rightarrow>
                    if absoluteUrl \<notin> snd ls
                    then (fst ls @
                            [\<lparr>link_text =
                                (if trim (a_text (snd ia)) \<noteq> [] then trim (a_text (snd ia))
                                 else ''Reference '' @ show_nat (fst ia + 1)),
                              link_url = absoluteUrl\<rparr>],
                          insert absoluteUrl (snd ls))
                    else ls)
          else ls)"

text \<open>
  \<open>extractLinks\<close>: a missing document makes the first statement throw, and the outer
  \<open>catch\<close> returns the empty list.
\<close>

definition extractLinks :: "env \<Rightarrow> document option \<Rightarrow> string \<Rightarrow> link list" where
  "extractLinks e doc baseUrl =
     (case doc of
        None \<Rightarrow> []
      | Some d \<Rightarrow>
          (let ls1 = foldl (mainStep e baseUrl) ([], {}) (doc_anchors d);
               ls3 =
                 (if includes_str baseUrl ''wikipedia.org''
                  then (let ls2 = foldl (citationStep e baseUrl) ls1 (enumerate 0 (doc_citations d))
                        in foldl (referenceStep e baseUrl) ls2 (enumerate 0 (doc_references d)))
                  else ls1)
           in fst ls3))"

subsection \<open>processArticle and browseWebpage\<close>

text \<open>\<open>s.replace(p, '')\<close> with a string pattern: the first occurrence of \<open>p\<close> goes.\<close>

fun remove_first :: "string \<Rightarrow> string \<Rightarrow> string" where
  "remove_first p [] = []"
| "remove_first p (c # s) =
     (if take (length p) (c # s) = p then drop (length p) (c # s) else c # remove_first p s)"

definition extractSiteName :: "env \<Rightarrow> string \<Rightarrow> document option \<Rightarrow> string" where
  "extractSiteName e url doc =
     (case doc of
        None \<Rightarrow> (case url_hostname e url of Some h \<Rightarrow> h | None \<Rightarrow> [])
      | Some d \<Rightarrow>
          if truthy (doc_ogSiteName d) then str_of (doc_ogSiteName d)
          else (case url_hostname e url of Some h \<Rightarrow> remove_first ''www.'' h | None \<Rightarrow> []))"

definition processArticle :: "env \<Rightarrow> config \<Rightarrow> article \<Rightarrow> string \<Rightarrow> webpage" where
  "processArticle e cfg art url =
     (case art_plainText art of
        Inl err \<Rightarrow>
          \<lparr>page_title = str_of (js_or (art_title art) (Some ''Content Processing Failed'')),
           page_siteName = None,
           page_excerpt = None,
           page_textContent =
             str_of (js_or (art_textBody art)
               (Some ''Could not process content from this webpage.'')),
           page_fullTextContent = None,
           page_url = url,
           page_links = None\<rparr>
      | Inr plainText \<Rightarrow>
          (let title = str_of (js_or (art_title art) (Some ''Untitled''));
               textContent = str_of (js_or (art_textBody art) (Some []));
               links = extractLinks e (art_document art) url;
               excerpt = before_first CHR 0x0A (trim textContent);
               truncatedText =
                 (if int (length plainText) > contentSummaryLength cfg
                  then substring plainText 0 (contentSummaryLength cfg) @ ''...''
                  else plainText)
           in \<lparr>page_title = title,
               page_siteName = Some (extractSiteName e url (art_document art)),
               page_excerpt = Some excerpt,
               page_textContent = truncatedText,
               page_fullTextContent = Some plainText,
               page_url = url,
               page_links = Some (js_slice0 links 15)\<rparr>))"

section \<open>State\<close>

text \<open>
  The session of a user, as the command handler stores it: an object whose fields
  may be missing. \<open>exit\<close> stores \<open>{mode: 'chat'}\<close>.
\<close>

datatype mode = Chat | Browse

datatype action = ActSearch | ActOpen | ActLink

record session =
  s_mode :: "mode option"
  s_lastAction :: "action option"
  s_query :: "string option"
  s_currentUrl :: "string option"
  s_resultId :: "int option"

definition no_session :: session where
  "no_session =
     \<lparr>s_mode = None, s_lastAction = None, s_query = None, s_currentUrl = None,
      s_resultId = None\<rparr>"

definition chat_session :: session where
  "chat_session = no_session\<lparr>s_mode := Some Chat\<rparr>"

text \<open>
  The mutable state of the program: the handler's \<open>userStates\<close>, the three maps of the
  web search service, and the messages that the adapter was asked to send, oldest
  first. A handler runs to its end before the next message is handled.
\<close>

record state =
  userStates :: "string \<rightharpoonup> session"
  currentSearchResults :: "string \<rightharpoonup> search_results"
  currentWebpageContent :: "string \<rightharpoonup> stored_page"
  contentPositions :: "string \<rightharpoonup> int"
  sent :: "(string \<times> string) list"

definition sendMessage :: "string \<Rightarrow> string \<Rightarrow> state \<Rightarrow> state" where
  "sendMessage recipient msg st = st\<lparr>sent := sent st @ [(recipient, msg)]\<rparr>"

definition setUserState :: "string \<Rightarrow> session \<Rightarrow> state \<Rightarrow> state" where
  "setUserState sender s st = st\<lparr>userStates := (userStates st)(sender \<mapsto> s)\<rparr>"

section \<open>Web search service: operations\<close>

definition searchWeb ::
  "env \<Rightarrow> config \<Rightarrow> string \<Rightarrow> string \<Rightarrow> state \<Rightarrow> (js_error + search_results) \<times> state" where
  "searchWeb e cfg query userId st =
     (if \<not> truthy (serperApiKey cfg)
      then (Inl (Error (''Failed to search the web: '' @
              ''Serper API key is not configured. Please set the SERPER_API_KEY environment variable.'')),
            st)
      else (case serper e query of
              Inl err \<Rightarrow> (Inl (Error (''Failed to search the web: '' @ message err)), st)
            | Inr searchData \<Rightarrow>
                (let formattedResults = formatSearchResults cfg searchData
                 in (Inr formattedResults,
                     st\<lparr>currentSearchResults :=
                          (currentSearchResults st)(userId \<mapsto> formattedResults)\<rparr>))))"

definition getSearchResultById :: "state \<Rightarrow> string \<Rightarrow> int \<Rightarrow> organic_result option" where
  "getSearchResultById st userId resultId =
     (case currentSearchResults st userId of
        None \<Rightarrow> None
      | Some results \<Rightarrow> find (\<lambda>result. res_id result = resultId) (res_organic results))"

definition browseWebpage ::
  "env \<Rightarrow> config \<Rightarrow> string \<Rightarrow> string \<Rightarrow> state \<Rightarrow> (js_error + webpage) \<times> state" where
  "browseWebpage e cfg url userId st =
     (case readability e url of
        Inl err \<Rightarrow> (Inl (Error (''Failed to browse the webpage: '' @ message err)), st)
      | Inr art \<Rightarrow>
          (let extractedContent = processArticle e cfg art url
           in (Inr extractedContent,
               st\<lparr>currentWebpageContent :=
                    (currentWebpageContent st)
                      (userId \<mapsto> \<lparr>stored_url = url, stored_content = extractedContent\<rparr>)\<rparr>)))"

text \<open>
  \<open>followLink\<close>. The range check compares \<open>linkId - 1\<close> with \<open>0\<close> and with the number
  of links; the link is then read from the array, and reading \<open>link.text\<close> of an
  \<open>undefined\<close> element throws a \<open>TypeError\<close> (the text is the one of the V8 engine).
\<close>

definition undefined_property :: "string \<Rightarrow> js_error" where
  "undefined_property name =
     TypeError (''Cannot read properties of undefined (reading '' @ [CHR 0x27] @ name @
                [CHR 0x27] @ '')'')"

definition followLink ::
  "env \<Rightarrow> config \<Rightarrow> string \<Rightarrow> jsnum \<Rightarrow> state \<Rightarrow> (js_error + webpage) \<times> state" where
  "followLink e cfg userId linkId st =
     (case currentWebpageContent st userId of
        None \<Rightarrow> (Inl (Error ''No current webpage content available''), st)
      | Some userContent \<Rightarrow>
          (case page_links (stored_content userContent) of
             None \<Rightarrow> (Inl (Error ''No links available on this page''), st)
           | Some links \<Rightarrow>
               if links = [] then (Inl (Error ''No links available on this page''), st)
               else (let index = js_minus1 linkId
                     in if js_lt index 0 \<or> js_ge index (int (length links))
                        then (Inl (Error (''Invalid link number. Please use a number between 1 and ''
                                @ show_nat (length links))), st)
                        else (case js_index links index of
                                None \<Rightarrow> (Inl (undefined_property ''text''), st)
                              | Some lnk \<Rightarrow> browseWebpage e cfg (link_url lnk) userId st))))"

text \<open>
  \<open>getMoreContent\<close>. The position of a user is initialised to the summary length when
  the map has none; the next chunk runs from the position to the position plus the
  summary length, and the position advances by the summary length. Without stored
  content the function returns a notice as its text. Content of the fallback branch
  of \<open>processArticle\<close> has no full text, and reading its length throws.
\<close>

definition getMoreContent ::
  "config \<Rightarrow> string \<Rightarrow> state \<Rightarrow> (js_error + string) \<times> state" where
  "getMoreContent cfg userId st =
     (case currentWebpageContent st userId of
        None \<Rightarrow> (Inr ''No current webpage content available'', st)
      | Some userContent \<Rightarrow>
          (let st1 =
                 (case contentPositions st userId of
                    None \<Rightarrow> st\<lparr>contentPositions :=
                                (contentPositions st)(userId \<mapsto> contentSummaryLength cfg)\<rparr>
                  | Some p \<Rightarrow> st);
               currentPosition =
                 (case contentPositions st userId of
                    None \<Rightarrow> contentSummaryLength cfg
                  | Some p \<Rightarrow> p);
               nextPosition = currentPosition + contentSummaryLength cfg
           in case page_fullTextContent (stored_content userContent) of
                None \<Rightarrow> (Inl (undefined_property ''length''), st1)
              | Some fullContent \<Rightarrow>
                  if currentPosition \<ge> int (length fullContent) then (Inr [], st1)
                  else (Inr (substring fullContent currentPosition
                               (min nextPosition (int (length fullContent)))),
                        st1\<lparr>contentPositions :=
                              (contentPositions st1)(userId \<mapsto> nextPosition)\<rparr>)))"

definition clearUserContent :: "string \<Rightarrow> state \<Rightarrow> state" where
  "clearUserContent userId st =
     st\<lparr>currentSearchResults := (currentSearchResults st)(userId := None),
        currentWebpageContent := (currentWebpageContent st)(userId := None),
        contentPositions := (contentPositions st)(userId := None)\<rparr>"

subsection \<open>Rendering\<close>

definition nl :: string where
  "nl = [CHR 0x0A]"

definition formatOrganic :: "organic_result \<Rightarrow> string" where
  "formatOrganic result =
     ''*'' @ show_int (res_id result) @ ''.* '' @ res_title result @ nl @
     res_snippet result @ nl @
     ''Type *!open '' @ show_int (res_id result) @ ''* to read more'' @ nl @ nl"

definition formatKnowledge :: "raw_knowledge \<Rightarrow> string" where
  "formatKnowledge k =
     ''*'' @ str_of (kg_title k) @ ''* ('' @ str_of (kg_type k) @ '')'' @ nl @
     str_of (kg_description k) @ nl @ nl @
     (case kg_attributes k of
        None \<Rightarrow> []
      | Some attrs \<Rightarrow>
          concat (map (\<lambda>(key, val). ''- '' @ key @ '': '' @ val @ nl) attrs) @ nl)"

definition formatSearchResultsMessage :: "search_results \<Rightarrow> string" where
  "formatSearchResultsMessage results =
     ''*'' @ [CHR 0xF0, CHR 0x9F, CHR 0x93, CHR 0x8A] @ '' Search Results*'' @ nl @ nl @
     (case res_answerBox results of
        None \<Rightarrow> []
      | Some ab \<Rightarrow>
          ''*Quick Answer:*'' @ nl @ str_of (js_or (ab_answer ab) (ab_snippet ab)) @ nl @ nl) @
     (case res_knowledge results of None \<Rightarrow> [] | Some k \<Rightarrow> formatKnowledge k) @
     ''*Web Results:*'' @ nl @
     (if res_organic results \<noteq> [] then concat (map formatOrganic (res_organic results))
      else ''No results found.'' @ nl @ nl) @
     (if res_peopleAlsoAsk results \<noteq> []
      then ''*People also ask:*'' @ nl @
           concat (map (\<lambda>item. ''- '' @ str_of (paa_question item) @ nl)
                     (res_peopleAlsoAsk results))
      else []) @
     nl @ ''*Commands:*'' @ nl @
     ''- *!search [query]* - Search for something new'' @ nl @
     ''- *!open [number]* - Open a search result'' @ nl @
     ''- *!back* - Return to search results'' @ nl"

definition formatLinkLine :: "nat \<times> link \<Rightarrow> string" where
  "formatLinkLine il =
     (let linkText = link_text (snd il);
          linkText' =
            (if length linkText > 40 then substring linkText 0 37 @ ''...'' else linkText)
      in ''*'' @ show_nat (fst il + 1) @ ''.* '' @ linkText' @ nl)"

definition formatWebpageContentMessage :: "webpage \<Rightarrow> string" where
  "formatWebpageContentMessage content =
     ''*'' @ [CHR 0xF0, CHR 0x9F, CHR 0x93, CHR 0x84] @ '' '' @ page_title content @ ''*'' @ nl @
     (if truthy (page_siteName content)
      then ''Source: '' @ str_of (page_siteName content) @ nl else []) @
     ''URL: '' @ page_url content @ nl @ nl @
     (if truthy (page_excerpt content)
      then ''*Summary:* '' @ str_of (page_excerpt content) @ nl @ nl else []) @
     page_textContent content @
     (case page_links content of
        None \<Rightarrow> nl @ nl @ ''*No navigatable links available on this page*'' @ nl
      | Some links \<Rightarrow>
          if links \<noteq> []
          then nl @ nl @ ''*'' @ [CHR 0xF0, CHR 0x9F, CHR 0x93, CHR 0x8C] @
               '' Navigatable Links:*'' @ nl @
               ''('' @ show_nat (length links) @
               '' links available - use !link [number] to navigate)'' @ nl @
               concat (map formatLinkLine (enumerate 0 (js_slice0 links 10)))
          else nl @ nl @ ''*No navigatable links available on this page*'' @ nl) @
     nl @ ''*Commands:*'' @ nl @
     ''- *!back* - Return to search results'' @ nl @
     ''- *!link [number]* - Follow a link on this page'' @ nl @
     ''- *!more* - Show more content'' @ nl @
     ''- *!search [query]* - Search for something new'' @ nl"

section \<open>Search command handler\<close>

definition handleWebSearch :: "env \<Rightarrow> config \<Rightarrow> string \<Rightarrow> string \<Rightarrow> state \<Rightarrow> state" where
  "handleWebSearch e cfg sender query st =
     (let st1 = sendMessage sender
                  ([CHR 0xF0, CHR 0x9F, CHR 0x94, CHR 0x8D] @ '' Searching for: '' @ [CHR 0x22] @
                   query @ [CHR 0x22] @ ''...'') st
      in case searchWeb e cfg query sender st1 of
           (Inl err, st2) \<Rightarrow>
             sendMessage sender
               (''Sorry, I encountered an error while searching: '' @ message err) st2
         | (Inr results, st2) \<Rightarrow>
             (let formattedResults = formatSearchResultsMessage results;
                  st3 = setUserState sender
                          (no_session\<lparr>s_mode := Some Browse, s_lastAction := Some ActSearch,
                                       s_query := Some query\<rparr>) st2
              in sendMessage sender formattedResults st3))"

definition handleOpenResult :: "env \<Rightarrow> config \<Rightarrow> string \<Rightarrow> int \<Rightarrow> state \<Rightarrow> state" where
  "handleOpenResult e cfg sender resultId st =
     (case getSearchResultById st sender resultId of
        None \<Rightarrow>
          sendMessage sender
            (''Sorry, I couldn'' @ [CHR 0x27] @
             ''t find that search result. Please try searching again.'') st
      | Some result \<Rightarrow>
          (let st1 = sendMessage sender
                       ([CHR 0xF0, CHR 0x9F, CHR 0x93, CHR 0x84] @ '' Opening: '' @ [CHR 0x22] @
                        res_title result @ [CHR 0x22] @ ''...'') st
           in case browseWebpage e cfg (res_link result) sender st1 of
                (Inl err, st2) \<Rightarrow>
                  sendMessage sender
                    (''Sorry, I encountered an error opening that page: '' @ message err) st2
              | (Inr content, st2) \<Rightarrow>
                  (let formattedContent = formatWebpageContentMessage content;
                       st3 = setUserState sender
                               (no_session\<lparr>s_mode := Some Browse, s_lastAction := Some ActOpen,
                                            s_currentUrl := Some (res_link result),
                                            s_resultId := Some resultId\<rparr>) st2
                   in sendMessage sender formattedContent st3)))"

definition handleBackCommand :: "env \<Rightarrow> config \<Rightarrow> string \<Rightarrow> state \<Rightarrow> state" where
  "handleBackCommand e cfg sender st =
     (case userStates st sender of
        None \<Rightarrow>
          sendMessage sender
            (''There'' @ [CHR 0x27] @ ''s no previous state to go back to.'')
            (setUserState sender chat_session st)
      | Some userState \<Rightarrow>
          if s_lastAction userState = Some ActSearch
          then sendMessage sender
                 (''You'' @ [CHR 0x27] @ ''re already at the search results.'') st
          else if truthy (s_query userState)
          then handleWebSearch e cfg sender (str_of (s_query userState)) st
          else setUserState sender chat_session
                 (sendMessage sender ''No search results available. Please try a new search.'' st))"

definition handleLinkCommand :: "env \<Rightarrow> config \<Rightarrow> string \<Rightarrow> jsnum \<Rightarrow> state \<Rightarrow> state" where
  "handleLinkCommand e cfg sender linkId st =
     (let st1 = sendMessage sender
                  ([CHR 0xF0, CHR 0x9F, CHR 0x94, CHR 0x97] @ '' Following link #'' @
                   show_num linkId @ ''...'') st
      in case followLink e cfg sender linkId st1 of
           (Inl err, st2) \<Rightarrow>
             sendMessage sender
               (''Sorry, I couldn'' @ [CHR 0x27] @ ''t follow that link: '' @ message err) st2
         | (Inr content, st2) \<Rightarrow>
             (let formattedContent = formatWebpageContentMessage content;
                  userState = (case userStates st2 sender of None \<Rightarrow> no_session | Some u \<Rightarrow> u);
                  st3 = setUserState sender
                          (userState\<lparr>s_lastAction := Some ActLink,
                                     s_currentUrl := Some (page_url content)\<rparr>) st2
              in sendMessage sender formattedContent st3))"

definition handleMoreCommand :: "config \<Rightarrow> string \<Rightarrow> state \<Rightarrow> state" where
  "handleMoreCommand cfg sender st =
     (case getMoreContent cfg sender st of
        (Inl err, st1) \<Rightarrow>
          sendMessage sender
            (''Sorry, I encountered an error getting more content: '' @ message err) st1
      | (Inr moreContent, st1) \<Rightarrow>
          if moreContent = []
          then sendMessage sender
                 (''Sorry, there'' @ [CHR 0x27] @
                  ''s no more content available for this page.'') st1
          else sendMessage sender
                 (''*More Content:*'' @ nl @ nl @ moreContent @ nl @ nl @
                  ''(Type *!more* again for additional content)'') st1)"

definition handleSummarizeCommand :: "string \<Rightarrow> state \<Rightarrow> state" where
  "handleSummarizeCommand sender st =
     (case userStates st sender of
        None \<Rightarrow>
          sendMessage sender
            ''Please open a webpage first before using the summarize command.'' st
      | Some userState \<Rightarrow>
          if s_mode userState \<noteq> Some Browse \<or> \<not> truthy (s_currentUrl userState)
          then sendMessage sender
                 ''Please open a webpage first before using the summarize command.'' st
          else (let st1 = sendMessage sender
                            ([CHR 0xF0, CHR 0x9F, CHR 0x93, CHR 0x9D] @
                             '' Generating summary of current webpage...'') st
                in case currentWebpageContent st1 sender of
                     None \<Rightarrow>
                       sendMessage sender
                         (''Sorry, I couldn'' @ [CHR 0x27] @
                          ''t retrieve the current webpage content.'') st1
                   | Some content \<Rightarrow>
                       (let title = page_title (stored_content content);
                            fullContent =
                              str_of (js_or (page_fullTextContent (stored_content content))
                                        (Some (page_textContent (stored_content content))));
                            prompt =
                              ''Please provide a concise summary of the following webpage content. '' @
                              ''Focus on the main points and key information:'' @ nl @ nl @
                              ''Title: '' @ title @ nl @ nl @ ''Content: '' @ fullContent
                        in sendMessage sender (''!summarize_webpage '' @ prompt) st1)))"

text \<open>\<open>args.join(' ')\<close> and \<open>args[0]\<close>.\<close>

fun join_sp :: "string list \<Rightarrow> string" where
  "join_sp [] = []"
| "join_sp [a] = a"
| "join_sp (a # b # rest) = a @ '' '' @ join_sp (b # rest)"

fun first_arg :: "string list \<Rightarrow> string option" where
  "first_arg [] = None"
| "first_arg (a # _) = Some a"

definition exitBrowse :: "string \<Rightarrow> state \<Rightarrow> state" where
  "exitBrowse sender st =
     sendMessage sender ''Exited search mode. Back to normal chat.''
       (setUserState sender chat_session st)"

text \<open>
  \<open>handleCommand\<close>: the switch over the lower-cased command name. The result says
  whether the command was handled.
\<close>

definition handleCommand ::
  "env \<Rightarrow> config \<Rightarrow> string \<Rightarrow> string \<Rightarrow> string list \<Rightarrow> state \<Rightarrow> bool \<times> state" where
  "handleCommand e cfg sender command args st =
     (let c = toLowerCase command
      in if c = ''search''
         then (let query = trim (join_sp args)
               in if query = []
                  then (True, sendMessage sender
                          ''Please provide a search query. For example: !search climate change'' st)
                  else (True, handleWebSearch e cfg sender query st))
         else if c = ''open''
         then (case parseInt (first_arg args) of
                 NaN \<Rightarrow>
                   (True, sendMessage sender
                      ''Please specify a valid result number to open. For example: !open 2'' st)
               | Num resultId \<Rightarrow> (True, handleOpenResult e cfg sender resultId st))
         else if c = ''back'' then (True, handleBackCommand e cfg sender st)
         else if c = ''link''
         then (let linkId = parseInt (first_arg args)
               in if isNaN linkId
                  then (True, sendMessage sender
                          ''Please specify a valid link number to follow. For example: !link 2'' st)
                  else (True, handleLinkCommand e cfg sender linkId st))
         else if c = ''more'' then (True, handleMoreCommand cfg sender st)
         else if c = ''summarize'' then (True, handleSummarizeCommand sender st)
         else if c = ''exit'' then (True, exitBrowse sender st)
         else (False, st))"

text \<open>
  \<open>handleDirectMessage\<close>: a message that starts with \<open>!\<close> is a command; in browse mode
  free text is navigation shorthand or a new search; elsewhere only \<open>search ...\<close> is
  handled.
\<close>

definition handleDirectMessage ::
  "env \<Rightarrow> config \<Rightarrow> string \<Rightarrow> string \<Rightarrow> state \<Rightarrow> bool \<times> state" where
  "handleDirectMessage e cfg sender msg st =
     (let st0 = (case userStates st sender of
                   None \<Rightarrow> setUserState sender chat_session st
                 | Some u \<Rightarrow> st);
          userState = (case userStates st sender of None \<Rightarrow> chat_session | Some u \<Rightarrow> u)
      in if startsWith msg ''!''
         then (let parts = split_ws (trim (drop 1 msg))
               in handleCommand e cfg sender (hd parts) (tl parts) st0)
         else if s_mode userState = Some Browse
         then (if toLowerCase msg = ''back'' then (True, handleBackCommand e cfg sender st0)
               else if toLowerCase msg = ''more'' then (True, handleMoreCommand cfg sender st0)
               else if startsWith (toLowerCase msg) ''link ''
               then (True, handleLinkCommand e cfg sender (parseInt (Some (trim (drop 5 msg)))) st0)
               else if toLowerCase msg = ''exit'' then (True, exitBrowse sender st0)
               else (True, handleWebSearch e cfg sender msg st0))
         else if startsWith (toLowerCase msg) ''search ''
         then (True, handleWebSearch e cfg sender (trim (drop 7 msg)) st0)
         else (False, st0))"

section \<open>Sequences of calls\<close>

text \<open>
  The position from which the next \<open>getMoreContent\<close> of a user reads: the stored one,
  or the summary length when none is stored.
\<close>

definition position :: "config \<Rightarrow> state \<Rightarrow> string \<Rightarrow> int" where
  "position cfg st userId =
     (case contentPositions st userId of None \<Rightarrow> contentSummaryLength cfg | Some p \<Rightarrow> p)"

text \<open>\<open>n\<close> successive calls of \<open>getMoreContent\<close> for one user: their results, in order.\<close>

fun moreSequence :: "config \<Rightarrow> string \<Rightarrow> nat \<Rightarrow> state \<Rightarrow> (js_error + string) list \<times> state" where
  "moreSequence cfg userId 0 st = ([], st)"
| "moreSequence cfg userId (Suc n) st =
     (let r = getMoreContent cfg userId st;
          rs = moreSequence cfg userId n (snd r)
      in (fst r # fst rs, snd rs))"

text \<open>The messages sent while a handler took the state from \<open>st\<close> to \<open>st'\<close>.\<close>

definition replies :: "state \<Rightarrow> state \<Rightarrow> (string \<times> string) list" where
  "replies st st' = drop (length (sent st)) (sent st')"

text \<open>
  \<open>keepsStored st st'\<close>: every user with an entry in one of the three maps of the web
  search service in \<open>st\<close> still has an entry in that map in \<open>st'\<close>. A call of
  \<open>clearUserContent\<close> for a user with stored data breaks this.
\<close>

definition keepsStored :: "state \<Rightarrow> state \<Rightarrow> bool" where
  "keepsStored st st' =
     (dom (currentSearchResults st) \<subseteq> dom (currentSearchResults st') \<and>
      dom (currentWebpageContent st) \<subseteq> dom (currentWebpageContent st') \<and>
      dom (contentPositions st) \<subseteq> dom (contentPositions st'))"

text \<open>
  The number of organic results stored for a user (none without a stored result set),
  and the invariant of a stored result set: its \<open>id\<close> fields are \<open>1, 2, ...\<close> up to
  their number. \<open>searchWeb\<close> is the only writer of the map, and it stores what
  \<open>formatSearchResults\<close> returns.
\<close>

definition resultCount :: "state \<Rightarrow> string \<Rightarrow> nat" where
  "resultCount st userId =
     (case currentSearchResults st userId of None \<Rightarrow> 0 | Some rs \<Rightarrow> length (res_organic rs))"

definition denseIds :: "search_results \<Rightarrow> bool" where
  "denseIds rs = (map res_id (res_organic rs) = [1 .. int (length (res_organic rs))])"

definition storedDense :: "state \<Rightarrow> string \<Rightarrow> bool" where
  "storedDense st userId =
     (case currentSearchResults st userId of None \<Rightarrow> True | Some rs \<Rightarrow> denseIds rs)"

section \<open>Message service\<close>

text \<open>
  The message service is what the entry point creates and hands to the adapter as its
  message handler. Its options there are \<open>prefixCommands: true\<close> and
  \<open>commandPrefix: '!'\<close>.
\<close>

record ms_config =
  prefixCommands :: bool
  commandPrefix :: string

definition wired_config :: ms_config where
  "wired_config = \<lparr>prefixCommands = True, commandPrefix = ''!''\<rparr>"

text \<open>
  The language-model service is a collaborator of the message service. Its state is
  a type parameter and its methods are taken as functions on that state, each
  returning the text that the message service uses. \<open>getSystemPrompt\<close> is
  \<open>getUserSettings(sender).systemPrompt\<close>, and \<open>setUserProvider\<close> is the pair of
  statements that write \<open>provider\<close> into the user's settings.
\<close>

record provider_info =
  prov_id :: string
  prov_name :: string
  prov_model :: string
  prov_isConfigured :: bool

record ('l, 'c) llm_service =
  getResponse :: "string \<Rightarrow> string \<Rightarrow> 'c \<Rightarrow> 'l \<Rightarrow> string \<times> 'l"
  updateConversationHistory :: "string \<Rightarrow> string \<Rightarrow> string \<Rightarrow> 'l \<Rightarrow> 'l"
  clearConversationHistory :: "string \<Rightarrow> 'l \<Rightarrow> string \<times> 'l"
  getSystemPrompt :: "string \<Rightarrow> 'l \<Rightarrow> string option \<times> 'l"
  updateSystemPrompt :: "string \<Rightarrow> string \<Rightarrow> 'l \<Rightarrow> string \<times> 'l"
  getCurrentProvider :: "'l \<Rightarrow> string \<times> string"
  getAvailableProviders :: "'l \<Rightarrow> provider_info list"
  setUserProvider :: "string \<Rightarrow> string \<Rightarrow> 'l \<Rightarrow> 'l"
  switchProvider :: "string \<Rightarrow> 'l \<Rightarrow> string \<times> 'l"

record 'l ms_state =
  llm :: 'l
  delivered :: "(string \<times> string) list"

definition deliver :: "string \<Rightarrow> string \<Rightarrow> 'l ms_state \<Rightarrow> 'l ms_state" where
  "deliver recipient msg st = st\<lparr>delivered := delivered st @ [(recipient, msg)]\<rparr>"

definition helpText :: "string \<Rightarrow> string" where
  "helpText prefix =
     ''Available commands:'' @ nl @
     prefix @ ''help - Show this help message'' @ nl @
     prefix @ ''clear - Clear conversation history'' @ nl @
     prefix @ ''ping - Check if bot is responsive'' @ nl @
     prefix @ ''provider - Show current LLM provider'' @ nl @
     prefix @ ''provider list - List available providers'' @ nl @
     prefix @ ''provider set <name> - Switch to a different provider'' @ nl @
     prefix @ ''system <prompt> - Set system prompt''"

definition unknownCommand :: "string \<Rightarrow> string \<Rightarrow> string" where
  "unknownCommand cmd prefix =
     ''Unknown command: '' @ cmd @ ''. Type '' @ prefix @ ''help for available commands.''"

definition formatProvider :: "provider_info \<Rightarrow> string" where
  "formatProvider p =
     ''- '' @ prov_id p @ '': '' @ prov_name p @ '' ('' @ prov_model p @ '') '' @
     (if prov_isConfigured p then [CHR 0xE2, CHR 0x9C, CHR 0x85] else [CHR 0xE2, CHR 0x9D, CHR 0x8C])
     @ nl"

definition ms_handleProviderCommand ::
  "('l, 'c) llm_service \<Rightarrow> string \<Rightarrow> string list \<Rightarrow> 'l ms_state \<Rightarrow> 'l ms_state" where
  "ms_handleProviderCommand svc sender args st =
     (case first_arg args of
        None \<Rightarrow>
          deliver sender
            (''Current provider: '' @ fst (getCurrentProvider svc (llm st)) @ '' (Model: '' @
             snd (getCurrentProvider svc (llm st)) @ '')'') st
      | Some sub \<Rightarrow>
          if sub = [] then
            deliver sender
              (''Current provider: '' @ fst (getCurrentProvider svc (llm st)) @ '' (Model: '' @
               snd (getCurrentProvider svc (llm st)) @ '')'') st
          else if toLowerCase sub = ''list'' then
            deliver sender
              (''Available providers:'' @ nl @
               concat (map formatProvider (getAvailableProviders svc (llm st))) @
               nl @ ''Use '' @ [CHR 0x22] @ ''!provider set <id>'' @ [CHR 0x22] @
               '' to switch providers.'') st
          else if toLowerCase sub = ''set'' then
            (case first_arg (tl args) of
               None \<Rightarrow>
                 deliver sender
                   (''Please specify a provider ID. Use '' @ [CHR 0x22] @ ''!provider list'' @
                    [CHR 0x22] @ '' to see available providers.'') st
             | Some pid \<Rightarrow>
                 if pid = [] then
                   deliver sender
                     (''Please specify a provider ID. Use '' @ [CHR 0x22] @ ''!provider list'' @
                      [CHR 0x22] @ '' to see available providers.'') st
                 else (let l1 = setUserProvider svc sender (toLowerCase pid) (llm st);
                           r = switchProvider svc (toLowerCase pid) l1
                       in deliver sender (fst r) (st\<lparr>llm := snd r\<rparr>)))
          else deliver sender
                 (''Unknown subcommand: '' @ toLowerCase sub @
                  ''. Available options are: list, set'') st)"

text \<open>
  \<open>MessageService.handleCommand\<close>: the command text without its prefix is trimmed and
  split at white space; the switch goes over the lower-cased first piece.
\<close>

definition ms_handleCommand ::
  "('l, 'c) llm_service \<Rightarrow> ms_config \<Rightarrow> string \<Rightarrow> string \<Rightarrow> 'l ms_state \<Rightarrow> 'l ms_state" where
  "ms_handleCommand svc cfg sender command st =
     (let parts = split_ws (trim command);
          cmd = hd parts;
          args = tl parts;
          c = toLowerCase cmd
      in if c = ''help'' then deliver sender (trim (helpText (commandPrefix cfg))) st
         else if c = ''clear''
         then (let r = clearConversationHistory svc sender (llm st)
               in deliver sender (fst r) (st\<lparr>llm := snd r\<rparr>))
         else if c = ''ping'' then deliver sender ''Pong! Bot is responsive.'' st
         else if c = ''provider'' then ms_handleProviderCommand svc sender args st
         else if c = ''system''
         then (let promptText = trim (join_sp args)
               in if promptText = []
                  then (let r = getSystemPrompt svc sender (llm st)
                        in deliver sender
                             (''Current system prompt: '' @ [CHR 0x22] @ str_of (fst r) @ [CHR 0x22])
                             (st\<lparr>llm := snd r\<rparr>))
                  else (let r = updateSystemPrompt svc sender promptText (llm st)
                        in deliver sender (fst r) (st\<lparr>llm := snd r\<rparr>)))
         else deliver sender (unknownCommand cmd (commandPrefix cfg)) st)"

text \<open>
  \<open>MessageService.handleMessage\<close>: a message that starts with the prefix is a
  command; every other message goes to the language model, and its answer is sent
  back.
\<close>

definition ms_handleMessage ::
  "('l, 'c) llm_service \<Rightarrow> ms_config \<Rightarrow> string \<Rightarrow> string \<Rightarrow> 'c \<Rightarrow> 'l ms_state \<Rightarrow> 'l ms_state" where
  "ms_handleMessage svc cfg sender msg ctx st =
     (if prefixCommands cfg \<and> startsWith msg (commandPrefix cfg)
      then ms_handleCommand svc cfg sender (drop (length (commandPrefix cfg)) msg) st
      else (let r = getResponse svc sender msg ctx (llm st);
                l1 = updateConversationHistory svc sender ''user'' msg (snd r);
                l2 = updateConversationHistory svc sender ''assistant'' (fst r) l1
            in deliver sender (fst r) (st\<lparr>llm := l2\<rparr>)))"

text \<open>The commands of the navigation state machine.\<close>

definition navigationCommands :: "string list" where
  "navigationCommands = [''search'', ''open'', ''back'', ''link'', ''more'', ''summarize'', ''exit'']"

text \<open>The command names that the switch of the message service has a case for.\<close>

definition serviceCommands :: "string list" where
  "serviceCommands = [''help'', ''clear'', ''ping'', ''provider'', ''system'']"

section \<open>Sample inputs\<close>

text \<open>A provider response with \<open>k\<close> organic results and nothing else.\<close>

definition sample_raw :: "nat \<Rightarrow> raw_result" where
  "sample_raw i =
     \<lparr>raw_title = ''Title '' @ show_nat (Suc i),
      raw_link = ''https://example.org/'' @ show_nat (Suc i),
      raw_snippet = ''Snippet '' @ show_nat (Suc i),
      raw_position = int (Suc i)\<rparr>"

definition sample_data :: "nat \<Rightarrow> search_data" where
  "sample_data k =
     \<lparr>organic = Some (map sample_raw [0..<k]), knowledgeGraph = None, answerBox = None,
      peopleAlsoAsk = None\<rparr>"


text \<open>The state of a fresh process: no sessions, nothing stored, nothing sent.\<close>

definition initial_state :: state where
  "initial_state =
     \<lparr>userStates = Map.empty, currentSearchResults = Map.empty,
      currentWebpageContent = Map.empty, contentPositions = Map.empty, sent = []\<rparr>"

text \<open>
  A world in which every search returns five organic results and every page is an
  article whose text is 1000 times its first letter, then 1000 times its second and
  500 times its third, with two anchors to further pages. The URL parser returns an
  absolute \<open>https\<close> reference as it is written (the two references of the anchors
  are in normal form).
\<close>

definition sample_text :: "string \<Rightarrow> string" where
  "sample_text abc =
     replicate 1000 (abc ! 0) @ replicate 1000 (abc ! 1) @ replicate 500 (abc ! 2)"

definition sample_document :: document where
  "sample_document =
     \<lparr>doc_anchors =
        [\<lparr>a_href = Some ''https://example.org/2'', a_text = ''Second page'', a_title = None,
          a_ariaLabel = None, a_alt = None\<rparr>,
         \<lparr>a_href = Some ''https://example.org/1'', a_text = ''First page'', a_title = None,
          a_ariaLabel = None, a_alt = None\<rparr>],
      doc_citations = [], doc_references = [], doc_ogSiteName = None\<rparr>"

definition sample_article :: "string \<Rightarrow> article" where
  "sample_article abc =
     \<lparr>art_title = Some ''A page'', art_textBody = Some ''First line'',
      art_plainText = Inr (sample_text abc), art_document = Some sample_document\<rparr>"

definition sample_env :: env where
  "sample_env =
     \<lparr>serper = (\<lambda>q. Inr (sample_data 5)),
      readability =
        (\<lambda>url. if url = ''https://example.org/1'' then Inr (sample_article ''abc'')
               else Inr (sample_article ''xyz'')),
      url_href = (\<lambda>href base. if startsWith href ''https://'' then Some href else None),
      url_hostname = (\<lambda>url. Some ''example.org'')\<rparr>"

text \<open>The same world with every page fetch failing.\<close>

definition offline_env :: env where
  "offline_env = sample_env\<lparr>readability := (\<lambda>url. Inl (Error ''socket hang up''))\<rparr>"

text \<open>The state after user \<open>u\<close> has opened the first sample page in a fresh process.\<close>

definition viewing_state :: state where
  "viewing_state =
     snd (browseWebpage sample_env (default_config None) ''https://example.org/1'' ''u''
            initial_state)"

text \<open>
  A state in which user \<open>u\<close> is in browse mode on a page with two links.
\<close>

definition linked_page :: webpage where
  "linked_page =
     \<lparr>page_title = ''A page'', page_siteName = Some ''example.org'',
      page_excerpt = Some ''First line'', page_textContent = ''Some text'',
      page_fullTextContent = Some ''Some text'', page_url = ''https://example.org/1'',
      page_links =
        Some [\<lparr>link_text = ''Xyz'', link_url = ''https://example.org/2''\<rparr>,
              \<lparr>link_text = ''More'', link_url = ''https://example.org/3''\<rparr>]\<rparr>"

definition linked_state :: state where
  "linked_state =
     initial_state
       \<lparr>userStates :=
          [''u'' \<mapsto> no_session\<lparr>s_mode := Some Browse, s_lastAction := Some ActOpen,
                               s_currentUrl := Some ''https://example.org/1'',
                               s_resultId := Some 1\<rparr>],
        currentWebpageContent :=
          [''u'' \<mapsto> \<lparr>stored_url = ''https://example.org/1'', stored_content = linked_page\<rparr>]\<rparr>"

text \<open>
  The state after user \<open>u\<close> has searched for \<open>climate change\<close> in a fresh process, with
  a provider key configured.
\<close>

definition searched_state :: state where
  "searched_state =
     handleWebSearch sample_env (default_config (Some ''key'')) ''u'' ''climate change''
       initial_state"

text \<open>
  The states after the same user has then sent \<open>!open 3\<close>, and after the free text
  \<open>link 2\<close> on the page opened.
\<close>

definition opened_state :: state where
  "opened_state =
     snd (handleDirectMessage sample_env (default_config (Some ''key'')) ''u'' ''!open 3''
            searched_state)"

definition followed_state :: state where
  "followed_state =
     snd (handleDirectMessage sample_env (default_config (Some ''key'')) ''u'' ''link 2''
            opened_state)"

text \<open>
  The state after the user of \<open>viewing_state\<close> has called \<open>more\<close> once and has then
  opened the second sample page.
\<close>

definition paged_state :: state where
  "paged_state =
     snd (browseWebpage sample_env (default_config None) ''https://example.org/2'' ''u''
            (snd (getMoreContent (default_config None) ''u'' viewing_state)))"

text \<open>
  A page of the reference-heavy site family with one citation marker and one entry in
  its reference list:
  \<^verbatim>\<open><sup class="reference"><a href="#cite_note-1">[1]</a></sup>\<close>
  \<^verbatim>\<open><ol class="references"><li id="cite_note-1">\<close>
  \<^verbatim>\<open><a class="external" href="https://example.com">Example</a></li></ol>\<close>
  The page has two anchors; the marker's reference is found through the list item
  \<open>cite_note-1\<close>, whose parent is the list, and the list has the one external link.
  The URL parser puts the reference \<open>https://example.com\<close> into its normal form
  \<open>https://example.com/\<close> and resolves the fragment against the base.
\<close>

definition wiki_base :: string where
  "wiki_base = ''https://en.wikipedia.org/wiki/Example''"

definition wiki_document :: document where
  "wiki_document =
     \<lparr>doc_anchors =
        [\<lparr>a_href = Some ''#cite_note-1'', a_text = ''[1]'', a_title = None, a_ariaLabel = None,
          a_alt = None\<rparr>,
         \<lparr>a_href = Some ''https://example.com'', a_text = ''Example'', a_title = None,
          a_ariaLabel = None, a_alt = None\<rparr>],
      doc_citations =
        [\<lparr>cite_href = Some ''#cite_note-1'',
          cite_external = Some (Some ''https://example.com'', ''Example'')\<rparr>],
      doc_references =
        [\<lparr>a_href = Some ''https://example.com'', a_text = ''Example'', a_title = None,
          a_ariaLabel = None, a_alt = None\<rparr>],
      doc_ogSiteName = Some ''Wikipedia''\<rparr>"

definition wiki_env :: env where
  "wiki_env =
     sample_env
       \<lparr>url_href :=
          (\<lambda>href base.
             if href = ''https://example.com'' then Some ''https://example.com/''
             else if startsWith href ''#'' then Some (before_first CHR ''#'' base @ href)
             else None)\<rparr>"


section \<open>Search formatter\<close>

lemma length_map_index: "length (map_index f i xs) = length xs"
  by (induction xs arbitrary: i) auto

lemma map_index_stamp_ids:
  "map res_id (map_index stamp i xs) = [int i + 1 .. int i + int (length xs)]"
proof (induction xs arbitrary: i)
  case Nil
  then show ?case by simp
next
  case (Cons x xs)
  have "[int i + 1 .. int i + int (length (x # xs))] =
        (int i + 1) # [int (Suc i) + 1 .. int (Suc i) + int (length xs)]"
    by (subst upto_rec1) (auto simp: add.commute add.left_commute)
  then show ?case using Cons.IH [of "Suc i"] by (simp add: stamp_def)
qed

lemma map_index_stamp_payload: "map payload (map_index stamp i xs) = xs"
  by (induction xs arbitrary: i) (auto simp: stamp_def payload_def)

text \<open>
  Claim C4. For a provider response with \<open>K\<close> organic results (none when the section is
  missing) and a configured limit that is not negative, \<open>formatSearchResults\<close> keeps
  \<open>min K limit\<close> organic entries, their \<open>id\<close> fields are \<open>1, 2, ..., min K limit\<close> in this
  order (so dense, without gaps or repeats), and the entries are the first
  \<open>min K limit\<close> provider results in the provider's order.
\<close>

theorem formatSearchResults_dense_ids:
  assumes "0 \<le> searchResultsLimit cfg"
  shows "let raw = (case organic searchData of None \<Rightarrow> [] | Some rs \<Rightarrow> rs);
             n = min (length raw) (nat (searchResultsLimit cfg));
             stored = res_organic (formatSearchResults cfg searchData)
         in length stored = n \<and> map res_id stored = [1 .. int n] \<and>
            distinct (map res_id stored) \<and> map payload stored = take n raw"
  using assms
  by (cases "organic searchData")
     (simp_all add: formatSearchResults_def Let_def length_map_index map_index_stamp_ids
        map_index_stamp_payload js_slice0_def min_def)

theorem formatSearchResults_dense_ids_witness:
  "0 \<le> searchResultsLimit (default_config (Some ''key'')) \<and>
   length (res_organic (formatSearchResults (default_config (Some ''key'')) (sample_data 7))) = 5 \<and>
   map res_id (res_organic (formatSearchResults (default_config (Some ''key'')) (sample_data 7)))
     = [1, 2, 3, 4, 5]"
  using formatSearchResults_dense_ids [of "default_config (Some ''key'')" "sample_data 7"]
  by (simp add: default_config_def sample_data_def Let_def upto.simps)

section \<open>Pagination\<close>

lemma take_min_length: "take (min n (length xs)) xs = take n xs"
  by (cases "n \<le> length xs") (simp_all add: min_def)

lemma substring_chunk_nat:
  assumes "p < length s"
  shows "substring s (int p) (min (int p + int c) (int (length s))) = take c (drop p s)"
proof -
  have a: "clamp_index s (int p) = p"
    using assms by (simp add: clamp_index_def)
  have b: "clamp_index s (min (int p + int c) (int (length s))) = min (p + c) (length s)"
    by (simp add: clamp_index_def min_def) linarith
  have c: "min (p + c) (length s) - p = min c (length s - p)"
    using assms by (simp add: min_def) linarith
  have d: "take (min c (length s - p)) (drop p s) = take c (drop p s)"
    using take_min_length [of c "drop p s"] by simp
  show ?thesis
    using assms by (simp add: substring_def Let_def a b c d)
qed

lemma substring_chunk:
  assumes "0 \<le> p" "p < int (length s)" "0 < c"
  shows "substring s p (min (p + c) (int (length s))) = take (nat c) (drop (nat p) s)"
  using substring_chunk_nat [of "nat p" s "nat c"] assms by simp

lemma getMoreContent_step:
  assumes "currentWebpageContent st u = Some pg"
    and "page_fullTextContent (stored_content pg) = Some full"
    and "0 < contentSummaryLength cfg" and "0 \<le> position cfg st u"
  shows "fst (getMoreContent cfg u st) =
           Inr (take (nat (contentSummaryLength cfg)) (drop (nat (position cfg st u)) full))"
    and "currentWebpageContent (snd (getMoreContent cfg u st)) = currentWebpageContent st"
    and "position cfg (snd (getMoreContent cfg u st)) u =
           (if position cfg st u \<ge> int (length full) then position cfg st u
            else position cfg st u + contentSummaryLength cfg)"
  using assms
  by (auto simp: getMoreContent_def position_def Let_def substring_chunk split: option.splits)

lemma moreSequence_nth:
  assumes "currentWebpageContent st u = Some pg"
    and "page_fullTextContent (stored_content pg) = Some full"
    and "0 < contentSummaryLength cfg" and "0 \<le> position cfg st u"
    and "k < n"
  shows "fst (moreSequence cfg u n st) ! k =
           Inr (take (nat (contentSummaryLength cfg))
                  (drop (nat (position cfg st u) + k * nat (contentSummaryLength cfg)) full))"
  using assms
proof (induction n arbitrary: st k)
  case 0
  then show ?case by simp
next
  case (Suc n)
  let ?st1 = "snd (getMoreContent cfg u st)"
  note step = getMoreContent_step [OF Suc.prems(1-4)]
  show ?case
  proof (cases k)
    case 0
    then show ?thesis using step(1) by (simp add: Let_def)
  next
    case (Suc j)
    have c1: "currentWebpageContent ?st1 u = Some pg" using step(2) Suc.prems(1) by simp
    have p1: "0 \<le> position cfg ?st1 u" using step(3) Suc.prems(3,4) by (simp split: if_splits)
    have j: "j < n" using Suc Suc.prems(5) by simp
    have ih: "fst (moreSequence cfg u n ?st1) ! j =
           Inr (take (nat (contentSummaryLength cfg))
                  (drop (nat (position cfg ?st1 u) + j * nat (contentSummaryLength cfg)) full))"
      by (rule Suc.IH [OF c1 Suc.prems(2,3) p1 j])
    show ?thesis
    proof (cases "position cfg st u \<ge> int (length full)")
      case True
      then show ?thesis using ih step(3) Suc Suc.prems(3,4) by (simp add: Let_def)
    next
      case False
      then have "nat (position cfg ?st1 u) = nat (position cfg st u) + nat (contentSummaryLength cfg)"
        using step(3) Suc.prems(3,4) by (simp add: nat_add_distrib)
      then show ?thesis using ih Suc by (simp add: Let_def ac_simps)
    qed
  qed
qed

lemma chunk_nonempty_iff:
  assumes "0 < C"
  shows "k < (L - C + (C - 1)) div C \<longleftrightarrow> C + k * C < (L::nat)"
proof -
  have "k < (L - C + (C - 1)) div C \<longleftrightarrow> Suc k \<le> (L - C + (C - 1)) div C" by auto
  also have "\<dots> \<longleftrightarrow> Suc k * C \<le> L - C + (C - 1)"
    using assms by (simp only: less_eq_div_iff_mult_less_eq)
  also have "\<dots> \<longleftrightarrow> C + k * C < L" using assms by (cases "C < L") auto
  finally show ?thesis .
qed

text \<open>
  Pagination from a state in which no position is stored for the user. A user has a
  stored page whose full text has length \<open>L\<close>, the chunk size \<open>C\<close> (the configured
  summary length) is positive, and the map of positions has no entry for the user,
  so that the first call starts at \<open>C\<close>. Let \<open>n\<close> be \<open>(L - C)\<close> divided by \<open>C\<close> and
  rounded up (0 when the page is no longer than \<open>C\<close>). Then of \<open>n + m\<close> successive calls
  of \<open>getMoreContent\<close> the first \<open>n\<close> return the consecutive pieces of the full text
  that start at \<open>C\<close>, none of them empty, and each of the \<open>m\<close> calls after them returns
  the empty string. The code does not establish the condition on the map when a page
  is replaced; the section on a new page and the old position shows a run without it.
\<close>

theorem getMoreContent_chunks:
  assumes "currentWebpageContent st u = Some pg"
    and "page_fullTextContent (stored_content pg) = Some full"
    and "0 < contentSummaryLength cfg"
    and "contentPositions st u = None"
  shows "let C = nat (contentSummaryLength cfg);
             n = (length full - C + (C - 1)) div C;
             results = fst (moreSequence cfg u (n + m) st)
         in (\<forall>k<n. results ! k = Inr (take C (drop (C + k * C) full)) \<and>
                    take C (drop (C + k * C) full) \<noteq> []) \<and>
            (\<forall>k<m. results ! (n + k) = Inr [])"
proof -
  let ?C = "nat (contentSummaryLength cfg)"
  let ?n = "(length full - ?C + (?C - 1)) div ?C"
  have C: "0 < ?C" using assms(3) by simp
  have pos: "position cfg st u = contentSummaryLength cfg"
    using assms(4) by (simp add: position_def)
  have p0: "0 \<le> position cfg st u" using pos assms(3) by simp
  have nth: "fst (moreSequence cfg u (?n + m) st) ! k = Inr (take ?C (drop (?C + k * ?C) full))"
    if "k < ?n + m" for k
    using moreSequence_nth [OF assms(1,2,3) p0 that] pos by simp
  have a: "take ?C (drop (?C + k * ?C) full) \<noteq> []" if "k < ?n" for k
    using that C chunk_nonempty_iff [OF C, of k "length full"] by simp
  have b: "take ?C (drop (?C + (?n + k) * ?C) full) = []" for k
  proof -
    have "\<not> ?C + ?n * ?C < length full"
      using chunk_nonempty_iff [OF C, of ?n "length full"] by simp
    then have "length full \<le> ?C + (?n + k) * ?C" by (simp add: add_mult_distrib)
    then show ?thesis by simp
  qed
  have first: "\<forall>k<?n. fst (moreSequence cfg u (?n + m) st) ! k = Inr (take ?C (drop (?C + k * ?C) full))
                    \<and> take ?C (drop (?C + k * ?C) full) \<noteq> []"
  proof (intro allI impI conjI)
    fix k assume k: "k < ?n"
    then have "k < ?n + m" by simp
    then show "fst (moreSequence cfg u (?n + m) st) ! k = Inr (take ?C (drop (?C + k * ?C) full))"
      by (rule nth)
    show "take ?C (drop (?C + k * ?C) full) \<noteq> []" using k by (rule a)
  qed
  have rest: "\<forall>k<m. fst (moreSequence cfg u (?n + m) st) ! (?n + k) = Inr []"
  proof (intro allI impI)
    fix k assume "k < m"
    then have "?n + k < ?n + m" by simp
    then have "fst (moreSequence cfg u (?n + m) st) ! (?n + k) =
               Inr (take ?C (drop (?C + (?n + k) * ?C) full))"
      by (rule nth)
    then show "fst (moreSequence cfg u (?n + m) st) ! (?n + k) = Inr []"
      by (simp only: b)
  qed
  show ?thesis
    unfolding Let_def using first rest by (rule conjI)
qed

lemma sample_text_abc:
  "sample_text ''abc'' = replicate 1000 CHR ''a'' @ replicate 1000 CHR ''b'' @ replicate 500 CHR ''c''"
  by (simp add: sample_text_def)

lemma sample_page_text:
  "page_fullTextContent (processArticle e cfg (sample_article abc) url) = Some (sample_text abc)"
  by (simp add: processArticle_def sample_article_def Let_def)

theorem getMoreContent_chunks_witness:
  "0 < contentSummaryLength (default_config None) \<and>
   contentPositions viewing_state ''u'' = None \<and>
   map_option (page_fullTextContent \<circ> stored_content) (currentWebpageContent viewing_state ''u'')
     = Some (Some (sample_text ''abc'')) \<and>
   length (sample_text ''abc'') = 2500 \<and>
   fst (moreSequence (default_config None) ''u'' 4 viewing_state) ! 0 = Inr (replicate 1000 CHR ''b'') \<and>
   fst (moreSequence (default_config None) ''u'' 4 viewing_state) ! 1 = Inr (replicate 500 CHR ''c'') \<and>
   fst (moreSequence (default_config None) ''u'' 4 viewing_state) ! 2 = Inr [] \<and>
   fst (moreSequence (default_config None) ''u'' 4 viewing_state) ! 3 = Inr []"
proof -
  let ?cfg = "default_config None"
  let ?pg = "\<lparr>stored_url = ''https://example.org/1'',
              stored_content = processArticle sample_env ?cfg (sample_article ''abc'')
                                 ''https://example.org/1''\<rparr>"
  have h1: "currentWebpageContent viewing_state ''u'' = Some ?pg"
    by (simp add: viewing_state_def browseWebpage_def sample_env_def initial_state_def Let_def)
  have h2: "page_fullTextContent (stored_content ?pg) = Some (sample_text ''abc'')"
    by (simp add: sample_page_text)
  have h3: "0 < contentSummaryLength ?cfg"
    by (simp add: default_config_def)
  have h4: "contentPositions viewing_state ''u'' = None"
    by (simp add: viewing_state_def browseWebpage_def sample_env_def initial_state_def Let_def)
  have len: "length (sample_text ''abc'') = 2500"
    by (simp add: sample_text_def)
  have c: "nat (contentSummaryLength ?cfg) = 1000"
    by (simp add: default_config_def)
  have n: "(2500 - 1000 + (1000 - 1)) div 1000 = (2::nat)" by simp
  have two: "(4::nat) = 2 + 2" by simp
  note t = getMoreContent_chunks [OF h1 h2 h3 h4, of 2, unfolded Let_def len c n, folded two]
  have k0: "fst (moreSequence ?cfg ''u'' 4 viewing_state) ! 0 = Inr (replicate 1000 CHR ''b'')"
    using conjunct1 [OF t, THEN spec, of 0] by (simp add: sample_text_abc)
  have k1: "fst (moreSequence ?cfg ''u'' 4 viewing_state) ! 1 = Inr (replicate 500 CHR ''c'')"
    using conjunct1 [OF t, THEN spec, of 1] by (simp add: sample_text_abc)
  have k2: "fst (moreSequence ?cfg ''u'' 4 viewing_state) ! 2 = Inr []"
    using conjunct2 [OF t, THEN spec, of 0] by simp
  have k3: "fst (moreSequence ?cfg ''u'' 4 viewing_state) ! 3 = Inr []"
    using conjunct2 [OF t, THEN spec, of 1] by simp
  show ?thesis using h1 h2 h3 h4 len k0 k1 k2 k3 by simp
qed

section \<open>Message service dispatch\<close>

lemma nav_not_service: "c \<in> set navigationCommands \<Longrightarrow> c \<notin> set serviceCommands"
  by (auto simp: navigationCommands_def serviceCommands_def)

lemma ms_handleCommand_default:
  assumes "toLowerCase (hd (split_ws (trim command))) \<notin> set serviceCommands"
  shows "ms_handleCommand svc cfg sender command st =
         deliver sender (unknownCommand (hd (split_ws (trim command))) (commandPrefix cfg)) st"
  using assms by (simp add: ms_handleCommand_def Let_def serviceCommands_def)

text \<open>
  Claim C3. The message service is run with the options of the entry point. A message
  that starts with the prefix \<open>!\<close> is dispatched on its first word \<open>cmd\<close>, lower-cased.
  The switch has cases for \<open>help\<close>, \<open>clear\<close>, \<open>ping\<close>, \<open>provider\<close> and \<open>system\<close> only: every
  other word, and so each of \<open>search\<close>, \<open>open\<close>, \<open>back\<close>, \<open>link\<close>, \<open>more\<close>, \<open>summarize\<close> and
  \<open>exit\<close>, ends in the default branch. The whole effect of the message is then the one
  reply \<open>Unknown command: cmd. Type !help for available commands.\<close>; the state of
  the language-model service is as before, and no navigation handler runs.
\<close>

theorem ms_navigation_unknown:
  assumes "startsWith msg ''!''"
    and "cmd = hd (split_ws (trim (drop 1 msg)))"
  shows "(toLowerCase cmd \<notin> set serviceCommands \<longrightarrow>
            ms_handleMessage svc wired_config sender msg ctx st =
            deliver sender (''Unknown command: '' @ cmd @ ''. Type !help for available commands.'') st)
       \<and> (toLowerCase cmd \<in> set navigationCommands \<longrightarrow>
            ms_handleMessage svc wired_config sender msg ctx st =
            deliver sender (''Unknown command: '' @ cmd @ ''. Type !help for available commands.'') st)"
proof -
  have "ms_handleMessage svc wired_config sender msg ctx st =
        deliver sender (''Unknown command: '' @ cmd @ ''. Type !help for available commands.'') st"
    if "toLowerCase cmd \<notin> set serviceCommands"
    using that assms
    by (simp add: ms_handleMessage_def wired_config_def ms_handleCommand_default unknownCommand_def)
  then show ?thesis
    using nav_not_service by blast
qed

theorem ms_navigation_unknown_witness:
  "\<forall>(svc :: ('l, 'c) llm_service) ctx st.
     startsWith ''!Search climate change'' ''!'' \<and>
     hd (split_ws (trim (drop 1 ''!Search climate change''))) = ''Search'' \<and>
     toLowerCase ''Search'' \<in> set navigationCommands \<and>
     ms_handleMessage svc wired_config ''u'' ''!Search climate change'' ctx st =
       deliver ''u'' ''Unknown command: Search. Type !help for available commands.'' st"
proof -
  have h1: "startsWith ''!Search climate change'' ''!''"
    by code_simp
  have h2: "''Search'' = hd (split_ws (trim (drop 1 ''!Search climate change'')))"
    by code_simp
  have h3: "toLowerCase ''Search'' \<in> set navigationCommands"
    by code_simp
  show ?thesis
  proof (intro allI)
    fix svc :: "('l, 'c) llm_service" and ctx :: 'c and st :: "'l ms_state"
    show "startsWith ''!Search climate change'' ''!'' \<and>
          hd (split_ws (trim (drop 1 ''!Search climate change''))) = ''Search'' \<and>
          toLowerCase ''Search'' \<in> set navigationCommands \<and>
          ms_handleMessage svc wired_config ''u'' ''!Search climate change'' ctx st =
            deliver ''u'' ''Unknown command: Search. Type !help for available commands.'' st"
      using ms_navigation_unknown [OF h1 h2, of svc "''u''" ctx st] h1 h2 [symmetric] h3
      by simp
  qed
qed

section \<open>What the handlers leave alone\<close>

lemma keepsStored_refl [simp]: "keepsStored st st"
  by (simp add: keepsStored_def)

lemma keepsStored_trans: "keepsStored a b \<Longrightarrow> keepsStored b c \<Longrightarrow> keepsStored a c"
  unfolding keepsStored_def by (meson order.trans)

lemma keepsStored_sendMessage [simp]: "keepsStored st (sendMessage r m st') = keepsStored st st'"
  by (simp add: keepsStored_def sendMessage_def)

lemma keepsStored_setUserState [simp]: "keepsStored st (setUserState r s st') = keepsStored st st'"
  by (simp add: keepsStored_def setUserState_def)

lemma keepsStored_searchWeb: "keepsStored st (snd (searchWeb e cfg q u st))"
  by (auto simp: searchWeb_def keepsStored_def Let_def split: sum.splits)

lemma keepsStored_browseWebpage: "keepsStored st (snd (browseWebpage e cfg url u st))"
  by (auto simp: browseWebpage_def keepsStored_def Let_def split: sum.splits)

lemma keepsStored_followLink: "keepsStored st (snd (followLink e cfg u n st))"
  by (auto simp: followLink_def Let_def keepsStored_browseWebpage split: option.splits)

lemma keepsStored_getMoreContent: "keepsStored st (snd (getMoreContent cfg u st))"
  by (auto simp: getMoreContent_def keepsStored_def Let_def split: option.splits)

lemma keepsStored_handleWebSearch: "keepsStored st (handleWebSearch e cfg u q st)"
proof -
  have "keepsStored (sendMessage u m st) (snd (searchWeb e cfg q u (sendMessage u m st)))" for m
    by (rule keepsStored_searchWeb)
  then have "keepsStored st (snd (searchWeb e cfg q u (sendMessage u m st)))" for m
    by (auto simp: keepsStored_def sendMessage_def)
  then show ?thesis
    by (auto simp: handleWebSearch_def Let_def split: prod.splits sum.splits)
      (metis snd_conv)+
qed


lemma keepsStored_after_send:
  "keepsStored (sendMessage u m st) st' \<Longrightarrow> keepsStored st st'"
  by (simp add: keepsStored_def sendMessage_def)

lemma keepsStored_handleOpenResult: "keepsStored st (handleOpenResult e cfg u n st)"
proof (cases "getSearchResultById st u n")
  case None
  then show ?thesis by (simp add: handleOpenResult_def)
next
  case (Some result)
  let ?st1 = "sendMessage u ([CHR 0xF0, CHR 0x9F, CHR 0x93, CHR 0x84] @ '' Opening: '' @ [CHR 0x22] @
                        res_title result @ [CHR 0x22] @ ''...'') st"
  have "keepsStored st (snd (browseWebpage e cfg (res_link result) u ?st1))"
    by (rule keepsStored_after_send) (rule keepsStored_browseWebpage)
  then show ?thesis using Some
    by (cases "browseWebpage e cfg (res_link result) u ?st1")
       (auto simp: handleOpenResult_def Let_def split: sum.splits)
qed

lemma keepsStored_handleLinkCommand: "keepsStored st (handleLinkCommand e cfg u n st)"
proof -
  let ?st1 = "sendMessage u ([CHR 0xF0, CHR 0x9F, CHR 0x94, CHR 0x97] @ '' Following link #'' @
                   show_num n @ ''...'') st"
  have "keepsStored st (snd (followLink e cfg u n ?st1))"
    by (rule keepsStored_after_send) (rule keepsStored_followLink)
  then show ?thesis
    by (cases "followLink e cfg u n ?st1")
       (auto simp: handleLinkCommand_def Let_def split: sum.splits)
qed

lemma keepsStored_handleMoreCommand: "keepsStored st (handleMoreCommand cfg u st)"
  using keepsStored_getMoreContent [of st cfg u]
  by (cases "getMoreContent cfg u st") (auto simp: handleMoreCommand_def split: sum.splits)

lemma keepsStored_handleBackCommand: "keepsStored st (handleBackCommand e cfg u st)"
  by (auto simp: handleBackCommand_def keepsStored_handleWebSearch split: option.splits)

lemma keepsStored_handleSummarizeCommand: "keepsStored st (handleSummarizeCommand u st)"
  by (auto simp: handleSummarizeCommand_def Let_def split: option.splits)

lemma keepsStored_exitBrowse: "keepsStored st (exitBrowse u st)"
  by (simp add: exitBrowse_def)

lemma keepsStored_handleCommand: "keepsStored st (snd (handleCommand e cfg u c args st))"
  by (auto simp: handleCommand_def Let_def keepsStored_handleWebSearch keepsStored_handleOpenResult
        keepsStored_handleBackCommand keepsStored_handleLinkCommand keepsStored_handleMoreCommand
        keepsStored_handleSummarizeCommand keepsStored_exitBrowse split: jsnum.splits)

lemma keepsStored_from_set:
  "keepsStored (setUserState u s st) st' \<Longrightarrow> keepsStored st st'"
  by (simp add: keepsStored_def setUserState_def)

lemma keepsStored_handleDirectMessage:
  "keepsStored st (snd (handleDirectMessage e cfg u msg st))"
proof -
  let ?st0 = "case userStates st u of None \<Rightarrow> setUserState u chat_session st | Some x \<Rightarrow> st"
  have a: "keepsStored ?st0 st' \<Longrightarrow> keepsStored st st'" for st'
    by (cases "userStates st u") (auto dest: keepsStored_from_set)
  have "keepsStored ?st0 (snd (handleDirectMessage e cfg u msg st))"
    by (simp add: handleDirectMessage_def Let_def keepsStored_handleWebSearch
        keepsStored_handleBackCommand keepsStored_handleLinkCommand keepsStored_handleMoreCommand
        keepsStored_exitBrowse keepsStored_handleCommand)
  then show ?thesis by (rule a)
qed

lemma exit_lower: "toLowerCase ''exit'' = ''exit''"
  by code_simp

lemma handleCommand_exit: "handleCommand e cfg sender ''exit'' args st = (True, exitBrowse sender st)"
  by (simp add: handleCommand_def Let_def exit_lower)

lemma exitBrowse_fields:
  "userStates (exitBrowse sender st) = (userStates st)(sender \<mapsto> chat_session)"
  "currentSearchResults (exitBrowse sender st) = currentSearchResults st"
  "currentWebpageContent (exitBrowse sender st) = currentWebpageContent st"
  "contentPositions (exitBrowse sender st) = contentPositions st"
  "sent (exitBrowse sender st) = sent st @ [(sender, ''Exited search mode. Back to normal chat.'')]"
  by (simp_all add: exitBrowse_def sendMessage_def setUserState_def)

lemma getSearchResultById_exit:
  "getSearchResultById (exitBrowse sender st) u n = getSearchResultById st u n"
  by (simp add: getSearchResultById_def exitBrowse_fields)

lemma getMoreContent_exit:
  "fst (getMoreContent cfg u (exitBrowse sender st)) = fst (getMoreContent cfg u st)"
  "contentPositions (snd (getMoreContent cfg u (exitBrowse sender st))) =
     contentPositions (snd (getMoreContent cfg u st))"
  by (auto simp: getMoreContent_def exitBrowse_fields Let_def split: option.splits)

lemma handleMoreCommand_exit:
  "replies (exitBrowse sender st) (handleMoreCommand cfg u (exitBrowse sender st)) =
   replies st (handleMoreCommand cfg u st)"
  by (auto simp: handleMoreCommand_def getMoreContent_def exitBrowse_fields Let_def replies_def
        sendMessage_def split: option.splits)

lemma handleOpenResult_exit:
  "replies (exitBrowse sender st) (handleOpenResult e cfg u n (exitBrowse sender st)) =
   replies st (handleOpenResult e cfg u n st)"
  "currentWebpageContent (handleOpenResult e cfg u n (exitBrowse sender st)) =
   currentWebpageContent (handleOpenResult e cfg u n st)"
  by (auto simp: handleOpenResult_def getSearchResultById_def browseWebpage_def exitBrowse_fields
        Let_def replies_def sendMessage_def setUserState_def split: option.splits sum.splits)

section \<open>Exit\<close>

text \<open>
  Claim C10. The \<open>exit\<close> command stores \<open>{mode: chat}\<close> as the session of its sender and
  changes no other session and none of the three maps of the web search service
  (result sets, page contents, positions). No handler ever removes an entry of these
  maps: whatever command or message is handled, every user who had an entry in a map
  has one afterwards. So after \<open>exit\<close> an \<open>open n\<close> finds the same result, sends the same
  replies and stores the same page as it would have without the \<open>exit\<close>, and a \<open>more\<close>
  returns the same text and sends the same reply.
\<close>

theorem exit_keeps_stored_data:
  "handleCommand e cfg sender ''exit'' args st = (True, exitBrowse sender st) \<and>
   userStates (exitBrowse sender st) = (userStates st)(sender \<mapsto> chat_session) \<and>
   currentSearchResults (exitBrowse sender st) = currentSearchResults st \<and>
   currentWebpageContent (exitBrowse sender st) = currentWebpageContent st \<and>
   contentPositions (exitBrowse sender st) = contentPositions st \<and>
   keepsStored st0 (snd (handleCommand e0 cfg0 u0 c0 args0 st0)) \<and>
   keepsStored st0 (snd (handleDirectMessage e0 cfg0 u0 msg0 st0)) \<and>
   getSearchResultById (exitBrowse sender st) u n = getSearchResultById st u n \<and>
   replies (exitBrowse sender st) (handleOpenResult e1 cfg1 u n (exitBrowse sender st)) =
     replies st (handleOpenResult e1 cfg1 u n st) \<and>
   currentWebpageContent (handleOpenResult e1 cfg1 u n (exitBrowse sender st)) =
     currentWebpageContent (handleOpenResult e1 cfg1 u n st) \<and>
   fst (getMoreContent cfg1 u (exitBrowse sender st)) = fst (getMoreContent cfg1 u st) \<and>
   replies (exitBrowse sender st) (handleMoreCommand cfg1 u (exitBrowse sender st)) =
     replies st (handleMoreCommand cfg1 u st)"
  by (simp only: handleCommand_exit exitBrowse_fields keepsStored_handleCommand
        keepsStored_handleDirectMessage getSearchResultById_exit handleOpenResult_exit
        getMoreContent_exit handleMoreCommand_exit simp_thms)

theorem exit_keeps_stored_data_witness:
  "userStates (snd (handleCommand sample_env (default_config None) ''u'' ''exit'' [] linked_state)) ''u''
     = Some chat_session \<and>
   map_option stored_content
     (currentWebpageContent
        (snd (handleCommand sample_env (default_config None) ''u'' ''exit'' [] linked_state)) ''u'')
     = Some linked_page \<and>
   fst (getMoreContent (default_config None) ''u''
          (snd (handleCommand sample_env (default_config None) ''u'' ''exit'' [] linked_state)))
     = fst (getMoreContent (default_config None) ''u'' linked_state)"
  using exit_keeps_stored_data [of sample_env "default_config None" "''u''" "[]" linked_state
          _ _ _ _ _ _ _ "''u''" _ _ "default_config None"]
  by (simp add: linked_state_def initial_state_def)

lemma handleBackCommand_no_query:
  assumes "userStates st u = Some us" and "s_lastAction us \<noteq> Some ActSearch"
    and "\<not> truthy (s_query us)"
  shows "handleBackCommand e cfg u st =
         setUserState u chat_session
           (sendMessage u ''No search results available. Please try a new search.'' st)"
  using assms by (simp add: handleBackCommand_def)

lemma chat_session_fields:
  "s_lastAction chat_session = None" "s_query chat_session = None"
  "s_mode chat_session = Some Chat"
  by (simp_all add: chat_session_def no_session_def)

text \<open>
  Claim C8, as amended. From any state the \<open>exit\<close> command sets the session of its
  sender to \<open>{mode: chat}\<close> and sends the one message
  \<open>Exited search mode. Back to normal chat.\<close>; a \<open>back\<close> of the same user right after it
  sends the one message \<open>No search results available. Please try a new search.\<close> and
  leaves the session at \<open>{mode: chat}\<close>. (The report
  \<open>There's no previous state to go back to.\<close> is sent only to a user without any
  stored session, and \<open>exit\<close> stores one.)
\<close>

theorem exit_then_back:
  "handleCommand e cfg sender ''exit'' args st = (True, exitBrowse sender st) \<and>
   userStates (exitBrowse sender st) sender = Some chat_session \<and>
   replies st (exitBrowse sender st) = [(sender, ''Exited search mode. Back to normal chat.'')] \<and>
   replies (exitBrowse sender st) (handleBackCommand e1 cfg1 sender (exitBrowse sender st)) =
     [(sender, ''No search results available. Please try a new search.'')] \<and>
   userStates (handleBackCommand e1 cfg1 sender (exitBrowse sender st)) sender = Some chat_session"
proof -
  have us: "userStates (exitBrowse sender st) sender = Some chat_session"
    by (simp add: exitBrowse_fields)
  have bk: "handleBackCommand e1 cfg1 sender (exitBrowse sender st) =
         setUserState sender chat_session
           (sendMessage sender ''No search results available. Please try a new search.''
              (exitBrowse sender st))"
    using us by (rule handleBackCommand_no_query) (simp_all add: chat_session_fields)
  show ?thesis
    by (simp add: handleCommand_exit bk us replies_def exitBrowse_fields sendMessage_def
          setUserState_def)
qed

text \<open>
  Claim C8 as stated fails: after \<open>exit\<close>, the reply to \<open>back\<close> is not the report that
  there is nothing to go back to.
\<close>

theorem exit_then_back_counterexample:
  "replies (snd (handleCommand sample_env (default_config None) ''u'' ''exit'' [] linked_state))
     (handleBackCommand sample_env (default_config None) ''u''
        (snd (handleCommand sample_env (default_config None) ''u'' ''exit'' [] linked_state)))
     = [(''u'', ''No search results available. Please try a new search.'')] \<and>
   replies (snd (handleCommand sample_env (default_config None) ''u'' ''exit'' [] linked_state))
     (handleBackCommand sample_env (default_config None) ''u''
        (snd (handleCommand sample_env (default_config None) ''u'' ''exit'' [] linked_state)))
     \<noteq> [(''u'', ''There'' @ [CHR 0x27] @ ''s no previous state to go back to.'')]"
proof -
  have us: "userStates (exitBrowse ''u'' linked_state) ''u'' = Some chat_session"
    by (simp add: exitBrowse_fields)
  have bk: "handleBackCommand sample_env (default_config None) ''u'' (exitBrowse ''u'' linked_state) =
         setUserState ''u'' chat_session
           (sendMessage ''u'' ''No search results available. Please try a new search.''
              (exitBrowse ''u'' linked_state))"
    using us by (rule handleBackCommand_no_query) (simp_all add: chat_session_fields)
  show ?thesis
    by (simp add: handleCommand_exit bk replies_def exitBrowse_fields sendMessage_def
          setUserState_def)
qed

theorem exit_then_back_witness:
  "userStates (handleBackCommand sample_env (default_config None) ''u''
        (snd (handleCommand sample_env (default_config None) ''u'' ''exit'' [] initial_state))) ''u''
     = Some chat_session \<and>
   replies (snd (handleCommand sample_env (default_config None) ''u'' ''exit'' [] initial_state))
     (handleBackCommand sample_env (default_config None) ''u''
        (snd (handleCommand sample_env (default_config None) ''u'' ''exit'' [] initial_state)))
     = [(''u'', ''No search results available. Please try a new search.'')]"
  using exit_then_back [of sample_env "default_config None" "''u''" "[]" initial_state
          sample_env "default_config None"]
  by simp

section \<open>Link numbers that are not numbers\<close>

lemma followLink_NaN_eq:
  assumes "currentWebpageContent st u = Some pg"
    and "page_links (stored_content pg) = Some links" and "links \<noteq> []"
  shows "followLink e cfg u NaN st = (Inl (undefined_property ''text''), st)"
  using assms by (simp add: followLink_def Let_def)

lemma currentWebpageContent_sendMessage [simp]:
  "currentWebpageContent (sendMessage r m st) = currentWebpageContent st"
  by (simp add: sendMessage_def)

text \<open>
  Claim C9. A user has a stored page with at least one link. \<open>followLink\<close> with the
  link number \<open>NaN\<close> passes the range check, since both comparisons with \<open>NaN - 1\<close>
  are false, reads an \<open>undefined\<close> array element and throws the engine's \<open>TypeError\<close>
  instead of the error \<open>Invalid link number\<close>; the state is unchanged. The free text
  \<open>link <non-numeric>\<close> of a user in browse mode reaches this call, because that path
  passes the result of \<open>parseInt\<close> on without a test: the replies are the notice
  \<open>Following link #NaN...\<close> and the apology with the text of the \<open>TypeError\<close>. The
  prefixed command \<open>link\<close> with such an argument is answered with the usage hint
  instead.
\<close>

theorem followLink_NaN_not_rejected:
  assumes "currentWebpageContent st u = Some pg"
    and "page_links (stored_content pg) = Some links" and "links \<noteq> []"
    and "userStates st u = Some us" and "s_mode us = Some Browse"
    and "\<not> startsWith msg ''!''" and "startsWith (toLowerCase msg) ''link ''"
    and "parseInt (Some (trim (drop 5 msg))) = NaN"
    and "parseInt (first_arg args) = NaN"
  shows "followLink e cfg u NaN st = (Inl (undefined_property ''text''), st)
       \<and> fst (followLink e cfg u NaN st) \<noteq>
           Inl (Error (''Invalid link number. Please use a number between 1 and '' @
                       show_nat (length links)))
       \<and> handleDirectMessage e cfg u msg st =
           (True, sendMessage u (''Sorry, I couldn'' @ [CHR 0x27] @ ''t follow that link: '' @
                                  message (undefined_property ''text''))
                    (sendMessage u ([CHR 0xF0, CHR 0x9F, CHR 0x94, CHR 0x97] @
                                    '' Following link #NaN...'') st))
       \<and> handleCommand e cfg u ''link'' args st =
           (True, sendMessage u
                    ''Please specify a valid link number to follow. For example: !link 2'' st)"
proof -
  have a: "followLink e cfg u NaN st = (Inl (undefined_property ''text''), st)"
    using assms(1-3) by (rule followLink_NaN_eq)
  have b: "fst (followLink e cfg u NaN st) \<noteq>
           Inl (Error (''Invalid link number. Please use a number between 1 and '' @
                       show_nat (length links)))"
    by (simp add: a undefined_property_def)
  have nb: "toLowerCase msg \<noteq> ''back''" "toLowerCase msg \<noteq> ''more''"
    using assms(7) by (auto simp: startsWith_def)
  have c: "handleLinkCommand e cfg u NaN st =
           sendMessage u (''Sorry, I couldn'' @ [CHR 0x27] @ ''t follow that link: '' @
                                  message (undefined_property ''text''))
                    (sendMessage u ([CHR 0xF0, CHR 0x9F, CHR 0x94, CHR 0x97] @
                                    '' Following link #NaN...'') st)"
    using followLink_NaN_eq [of "sendMessage u ([CHR 0xF0, CHR 0x9F, CHR 0x94, CHR 0x97] @
                                    '' Following link #NaN...'') st" u pg links e cfg] assms(1-3)
    by (simp add: handleLinkCommand_def Let_def)
  have d: "handleDirectMessage e cfg u msg st = (True, handleLinkCommand e cfg u NaN st)"
    using assms(4-8) nb by (simp add: handleDirectMessage_def Let_def)
  have lk: "toLowerCase ''link'' = ''link''" by code_simp
  have f: "handleCommand e cfg u ''link'' args st =
           (True, sendMessage u
                    ''Please specify a valid link number to follow. For example: !link 2'' st)"
    using assms(9) by (simp add: handleCommand_def Let_def lk)
  show ?thesis using a b c d f by simp
qed

theorem followLink_NaN_not_rejected_witness:
  "\<forall>e cfg. handleDirectMessage e cfg ''u'' ''link abc'' linked_state =
     (True, sendMessage ''u'' (''Sorry, I couldn'' @ [CHR 0x27] @ ''t follow that link: '' @
                              ''Cannot read properties of undefined (reading '' @ [CHR 0x27] @
                              ''text'' @ [CHR 0x27] @ '')'')
              (sendMessage ''u'' ([CHR 0xF0, CHR 0x9F, CHR 0x94, CHR 0x97] @
                                 '' Following link #NaN...'') linked_state))
   \<and> handleCommand e cfg ''u'' ''link'' [''abc''] linked_state =
           (True, sendMessage ''u''
                    ''Please specify a valid link number to follow. For example: !link 2''
                    linked_state)"
proof (intro allI)
  fix e cfg
  let ?pg = "\<lparr>stored_url = ''https://example.org/1'', stored_content = linked_page\<rparr>"
  let ?us = "no_session\<lparr>s_mode := Some Browse, s_lastAction := Some ActOpen,
                               s_currentUrl := Some ''https://example.org/1'',
                               s_resultId := Some 1\<rparr>"
  have h1: "currentWebpageContent linked_state ''u'' = Some ?pg"
    by (simp add: linked_state_def initial_state_def)
  have h2: "page_links (stored_content ?pg) =
            Some [\<lparr>link_text = ''Xyz'', link_url = ''https://example.org/2''\<rparr>,
              \<lparr>link_text = ''More'', link_url = ''https://example.org/3''\<rparr>]"
    by (simp add: linked_page_def)
  have h3: "[\<lparr>link_text = ''Xyz'', link_url = ''https://example.org/2''\<rparr>,
              \<lparr>link_text = ''More'', link_url = ''https://example.org/3''\<rparr>] \<noteq> []" by simp
  have h4: "userStates linked_state ''u'' = Some ?us"
    by (simp add: linked_state_def initial_state_def)
  have h5: "s_mode ?us = Some Browse" by simp
  have h6: "\<not> startsWith ''link abc'' ''!''" by code_simp
  have h7: "startsWith (toLowerCase ''link abc'') ''link ''" by code_simp
  have h8: "parseInt (Some (trim (drop 5 ''link abc''))) = NaN" by code_simp
  have h9: "parseInt (first_arg [''abc'']) = NaN" by code_simp
  show "handleDirectMessage e cfg ''u'' ''link abc'' linked_state =
     (True, sendMessage ''u'' (''Sorry, I couldn'' @ [CHR 0x27] @ ''t follow that link: '' @
                              ''Cannot read properties of undefined (reading '' @ [CHR 0x27] @
                              ''text'' @ [CHR 0x27] @ '')'')
              (sendMessage ''u'' ([CHR 0xF0, CHR 0x9F, CHR 0x94, CHR 0x97] @
                                 '' Following link #NaN...'') linked_state))
   \<and> handleCommand e cfg ''u'' ''link'' [''abc''] linked_state =
           (True, sendMessage ''u''
                    ''Please specify a valid link number to follow. For example: !link 2''
                    linked_state)"
    using followLink_NaN_not_rejected [OF h1 h2 h3 h4 h5 h6 h7 h8 h9, of e cfg]
    by (simp add: undefined_property_def)
qed

section \<open>Opening a result\<close>

lemma find_dense_in:
  assumes "map res_id xs = [1 .. int (length xs)]" and "1 \<le> n" and "n \<le> int (length xs)"
  shows "\<exists>r. find (\<lambda>r. res_id r = n) xs = Some r \<and> res_id r = n"
proof (cases "find (\<lambda>r. res_id r = n) xs")
  case None
  then have "n \<notin> set (map res_id xs)" by (auto simp: find_None_iff)
  then show ?thesis using assms by simp
next
  case (Some r)
  then show ?thesis by (auto simp: find_Some_iff)
qed

lemma find_dense_out:
  assumes "map res_id xs = [1 .. int (length xs)]" and "n < 1 \<or> int (length xs) < n"
  shows "find (\<lambda>r. res_id r = n) xs = None"
proof -
  have "n \<notin> set (map res_id xs)" using assms by auto
  then show ?thesis by (auto simp: find_None_iff)
qed

lemma denseIds_formatSearchResults:
  "0 \<le> searchResultsLimit cfg \<Longrightarrow> denseIds (formatSearchResults cfg searchData)"
  by (cases "organic searchData")
     (simp_all add: denseIds_def formatSearchResults_def map_index_stamp_ids length_map_index)

lemma storedDense_searchWeb:
  assumes "0 \<le> searchResultsLimit cfg" and "storedDense st u"
  shows "storedDense (snd (searchWeb e cfg q v st)) u"
  using assms
  by (auto simp: searchWeb_def storedDense_def Let_def denseIds_formatSearchResults
        split: sum.splits)

lemma getSearchResultById_out:
  assumes "storedDense st u" and "n < 1 \<or> int (resultCount st u) < n"
  shows "getSearchResultById st u n = None"
  using assms
  by (auto simp: getSearchResultById_def storedDense_def resultCount_def denseIds_def
        find_dense_out split: option.splits)

lemma getSearchResultById_in:
  assumes "storedDense st u" and "1 \<le> n" and "n \<le> int (resultCount st u)"
  shows "\<exists>r. getSearchResultById st u n = Some r \<and> res_id r = n"
proof (cases "currentSearchResults st u")
  case None
  then show ?thesis using assms by (simp add: resultCount_def)
next
  case (Some rs)
  then show ?thesis using assms find_dense_in [of "res_organic rs" n]
    by (simp add: getSearchResultById_def storedDense_def resultCount_def denseIds_def)
qed

lemma handleOpenResult_not_found:
  "getSearchResultById st u n = None \<Longrightarrow>
   handleOpenResult e cfg u n st =
     sendMessage u (''Sorry, I couldn'' @ [CHR 0x27] @
                    ''t find that search result. Please try searching again.'') st"
  by (simp add: handleOpenResult_def)

lemma handleOpenResult_fetched:
  assumes "getSearchResultById st u n = Some r" and "readability e (res_link r) = Inr art"
  shows "userStates (handleOpenResult e cfg u n st) u =
         Some (no_session\<lparr>s_mode := Some Browse, s_lastAction := Some ActOpen,
                          s_currentUrl := Some (res_link r), s_resultId := Some n\<rparr>)"
  using assms
  by (simp add: handleOpenResult_def browseWebpage_def Let_def sendMessage_def setUserState_def)

lemma handleOpenResult_failed:
  assumes "getSearchResultById st u n = Some r" and "readability e (res_link r) = Inl err"
  shows "handleOpenResult e cfg u n st =
         sendMessage u (''Sorry, I encountered an error opening that page: '' @
                        ''Failed to browse the webpage: '' @ message err)
           (sendMessage u ([CHR 0xF0, CHR 0x9F, CHR 0x93, CHR 0x84] @ '' Opening: '' @ [CHR 0x22] @
                           res_title r @ [CHR 0x22] @ ''...'') st)"
  using assms
  by (simp add: handleOpenResult_def browseWebpage_def Let_def)

lemma open_lower: "toLowerCase ''open'' = ''open''"
  by code_simp

lemma handleCommand_open:
  "parseInt (first_arg args) = Num n \<Longrightarrow>
   handleCommand e cfg u ''open'' args st = (True, handleOpenResult e cfg u n st)"
  by (simp add: handleCommand_def Let_def open_lower)

text \<open>
  Claim C6, as amended. The result set stored for the user has dense \<open>id\<close> fields
  \<open>1..count\<close> (as every set that \<open>searchWeb\<close> stores has), with \<open>count = 0\<close> when
  nothing is stored. For every integer \<open>n\<close> outside \<open>1..count\<close>, \<open>open n\<close> sends the
  message that the result was not found and changes nothing else in the state. For
  every \<open>n\<close> inside the range the result with \<open>id = n\<close> is found, and when the fetch of
  its page succeeds the session becomes \<open>mode = browse\<close>, \<open>lastAction = open\<close>,
  \<open>currentUrl\<close> the link of the result and \<open>resultId = n\<close>; when the fetch fails, the
  handler sends the notice that it is opening the page and then the error, and
  changes nothing else in the state. The prefixed command \<open>open\<close> whose argument parses
  to the integer \<open>n\<close> is this handler.
\<close>

theorem handleOpenResult_cases:
  assumes "storedDense st u"
  shows "(n < 1 \<or> int (resultCount st u) < n \<longrightarrow>
            handleOpenResult e cfg u n st =
              sendMessage u (''Sorry, I couldn'' @ [CHR 0x27] @
                             ''t find that search result. Please try searching again.'') st)
       \<and> (1 \<le> n \<and> n \<le> int (resultCount st u) \<longrightarrow>
            (\<exists>r. getSearchResultById st u n = Some r \<and> res_id r = n \<and>
               (case readability e (res_link r) of
                  Inr art \<Rightarrow>
                    userStates (handleOpenResult e cfg u n st) u =
                      Some (no_session\<lparr>s_mode := Some Browse, s_lastAction := Some ActOpen,
                                       s_currentUrl := Some (res_link r), s_resultId := Some n\<rparr>)
                | Inl err \<Rightarrow>
                    handleOpenResult e cfg u n st =
                      sendMessage u (''Sorry, I encountered an error opening that page: '' @
                                     ''Failed to browse the webpage: '' @ message err)
                        (sendMessage u ([CHR 0xF0, CHR 0x9F, CHR 0x93, CHR 0x84] @ '' Opening: '' @
                                        [CHR 0x22] @ res_title r @ [CHR 0x22] @ ''...'') st))))
       \<and> (parseInt (first_arg args) = Num n \<longrightarrow>
            handleCommand e cfg u ''open'' args st = (True, handleOpenResult e cfg u n st))"
proof (intro conjI impI)
  assume "n < 1 \<or> int (resultCount st u) < n"
  then have "getSearchResultById st u n = None"
    using assms by (intro getSearchResultById_out)
  then show "handleOpenResult e cfg u n st =
              sendMessage u (''Sorry, I couldn'' @ [CHR 0x27] @
                             ''t find that search result. Please try searching again.'') st"
    by (rule handleOpenResult_not_found)
next
  assume "1 \<le> n \<and> n \<le> int (resultCount st u)"
  then obtain r where r: "getSearchResultById st u n = Some r" "res_id r = n"
    using getSearchResultById_in [OF assms, of n] by auto
  show "\<exists>r. getSearchResultById st u n = Some r \<and> res_id r = n \<and>
               (case readability e (res_link r) of
                  Inr art \<Rightarrow>
                    userStates (handleOpenResult e cfg u n st) u =
                      Some (no_session\<lparr>s_mode := Some Browse, s_lastAction := Some ActOpen,
                                       s_currentUrl := Some (res_link r), s_resultId := Some n\<rparr>)
                | Inl err \<Rightarrow>
                    handleOpenResult e cfg u n st =
                      sendMessage u (''Sorry, I encountered an error opening that page: '' @
                                     ''Failed to browse the webpage: '' @ message err)
                        (sendMessage u ([CHR 0xF0, CHR 0x9F, CHR 0x93, CHR 0x84] @ '' Opening: '' @
                                        [CHR 0x22] @ res_title r @ [CHR 0x22] @ ''...'') st))"
  proof (intro exI conjI)
    show "getSearchResultById st u n = Some r" by (rule r(1))
    show "res_id r = n" by (rule r(2))
    show "case readability e (res_link r) of
                  Inr art \<Rightarrow>
                    userStates (handleOpenResult e cfg u n st) u =
                      Some (no_session\<lparr>s_mode := Some Browse, s_lastAction := Some ActOpen,
                                       s_currentUrl := Some (res_link r), s_resultId := Some n\<rparr>)
                | Inl err \<Rightarrow>
                    handleOpenResult e cfg u n st =
                      sendMessage u (''Sorry, I encountered an error opening that page: '' @
                                     ''Failed to browse the webpage: '' @ message err)
                        (sendMessage u ([CHR 0xF0, CHR 0x9F, CHR 0x93, CHR 0x84] @ '' Opening: '' @
                                        [CHR 0x22] @ res_title r @ [CHR 0x22] @ ''...'') st)"
      using handleOpenResult_fetched [OF r(1)] handleOpenResult_failed [OF r(1)]
      by (cases "readability e (res_link r)") simp_all
  qed
next
  assume "parseInt (first_arg args) = Num n"
  then show "handleCommand e cfg u ''open'' args st = (True, handleOpenResult e cfg u n st)"
    by (rule handleCommand_open)
qed

lemma searched_results:
  "currentSearchResults searched_state ''u'' =
     Some (formatSearchResults (default_config (Some ''key'')) (sample_data 5))"
  by (simp add: searched_state_def handleWebSearch_def searchWeb_def sample_env_def
        initial_state_def default_config_def sendMessage_def setUserState_def Let_def)

lemma searched_session:
  "userStates searched_state ''u'' =
     Some (no_session\<lparr>s_mode := Some Browse, s_lastAction := Some ActSearch,
                      s_query := Some ''climate change''\<rparr>)"
  by (simp add: searched_state_def handleWebSearch_def searchWeb_def sample_env_def
        initial_state_def default_config_def sendMessage_def setUserState_def Let_def)

lemma searched_dense: "storedDense searched_state ''u''"
  by (simp add: storedDense_def searched_results denseIds_formatSearchResults default_config_def)

lemma sample_organic:
  "res_organic (formatSearchResults (default_config (Some ''key'')) (sample_data 5)) =
     map_index stamp 0 (map sample_raw [0, 1, 2, 3, 4])"
proof -
  have "[0..<5] = [0, 1, 2, 3, 4::nat]"
    by code_simp
  then show ?thesis
    by (simp add: formatSearchResults_def sample_data_def default_config_def js_slice0_def)
qed

lemma searched_count: "resultCount searched_state ''u'' = 5"
  by (simp add: resultCount_def searched_results sample_organic length_map_index)

lemma show_nat_3: "show_nat 3 = ''3''"
  by code_simp

lemma searched_third:
  "getSearchResultById searched_state ''u'' 3 =
     Some \<lparr>res_id = 3, res_title = ''Title 3'', res_link = ''https://example.org/3'',
           res_snippet = ''Snippet 3'', res_position = 3\<rparr>"
  by (simp add: getSearchResultById_def searched_results sample_organic stamp_def sample_raw_def
        show_nat_3)


lemma sample_fetch_3: "readability sample_env ''https://example.org/3'' = Inr (sample_article ''xyz'')"
  by (simp add: sample_env_def)

lemma offline_fetch: "readability offline_env url = Inl (Error ''socket hang up'')"
  by (simp add: offline_env_def)

theorem handleOpenResult_cases_witness:
  "storedDense searched_state ''u'' \<and>
   resultCount searched_state ''u'' = 5 \<and>
   handleOpenResult sample_env (default_config (Some ''key'')) ''u'' 9 searched_state =
     sendMessage ''u'' (''Sorry, I couldn'' @ [CHR 0x27] @
                       ''t find that search result. Please try searching again.'') searched_state \<and>
   userStates (handleOpenResult sample_env (default_config (Some ''key'')) ''u'' 3 searched_state) ''u'' =
     Some (no_session\<lparr>s_mode := Some Browse, s_lastAction := Some ActOpen,
                      s_currentUrl := Some ''https://example.org/3'', s_resultId := Some 3\<rparr>) \<and>
   userStates (handleOpenResult offline_env (default_config (Some ''key'')) ''u'' 3 searched_state) =
     userStates searched_state"
proof -
  note t9 = handleOpenResult_cases [OF searched_dense, of 9 sample_env "default_config (Some ''key'')"]
  note t3 = handleOpenResult_cases [OF searched_dense, of 3 sample_env "default_config (Some ''key'')"]
  note t3' = handleOpenResult_cases [OF searched_dense, of 3 offline_env "default_config (Some ''key'')"]
  have a: "handleOpenResult sample_env (default_config (Some ''key'')) ''u'' 9 searched_state =
     sendMessage ''u'' (''Sorry, I couldn'' @ [CHR 0x27] @
                       ''t find that search result. Please try searching again.'') searched_state"
    using t9 by (simp add: searched_count)
  have b: "userStates (handleOpenResult sample_env (default_config (Some ''key'')) ''u'' 3 searched_state) ''u'' =
     Some (no_session\<lparr>s_mode := Some Browse, s_lastAction := Some ActOpen,
                      s_currentUrl := Some ''https://example.org/3'', s_resultId := Some 3\<rparr>)"
    using t3 by (simp add: searched_count searched_third sample_fetch_3)
  have c: "userStates (handleOpenResult offline_env (default_config (Some ''key'')) ''u'' 3 searched_state) =
     userStates searched_state"
    using t3' by (simp add: searched_count searched_third offline_fetch sendMessage_def)
  show ?thesis
    using searched_dense searched_count a b c by simp
qed

text \<open>
  Claim C6 as stated fails for a result number inside the range whose page cannot be
  fetched: the session stays as the search left it, with \<open>lastAction = search\<close> and no
  \<open>resultId\<close>.
\<close>

theorem handleOpenResult_counterexample:
  "1 \<le> (3::int) \<and> 3 \<le> int (resultCount searched_state ''u'') \<and>
   userStates (handleOpenResult offline_env (default_config (Some ''key'')) ''u'' 3 searched_state) ''u'' =
     Some (no_session\<lparr>s_mode := Some Browse, s_lastAction := Some ActSearch,
                      s_query := Some ''climate change''\<rparr>) \<and>
   map_option s_lastAction
     (userStates (handleOpenResult offline_env (default_config (Some ''key'')) ''u'' 3 searched_state) ''u'')
     \<noteq> Some (Some ActOpen) \<and>
   map_option s_resultId
     (userStates (handleOpenResult offline_env (default_config (Some ''key'')) ''u'' 3 searched_state) ''u'')
     \<noteq> Some (Some 3)"
proof -
  have "handleOpenResult offline_env (default_config (Some ''key'')) ''u'' 3 searched_state =
         sendMessage ''u'' (''Sorry, I encountered an error opening that page: '' @
                        ''Failed to browse the webpage: '' @ message (Error ''socket hang up''))
           (sendMessage ''u'' ([CHR 0xF0, CHR 0x9F, CHR 0x93, CHR 0x84] @ '' Opening: '' @ [CHR 0x22] @
                           ''Title 3'' @ [CHR 0x22] @ ''...'') searched_state)"
    using handleOpenResult_failed [OF searched_third, of offline_env "Error ''socket hang up''"
            "default_config (Some ''key'')"]
    by (simp add: offline_fetch)
  then have "userStates (handleOpenResult offline_env (default_config (Some ''key'')) ''u'' 3 searched_state)
             = userStates searched_state"
    by (simp add: sendMessage_def)
  then show ?thesis
    by (simp add: searched_session searched_count no_session_def)
qed

subsection \<open>Every reachable state stores dense result sets\<close>

text \<open>
  With a limit that is not negative, the handlers keep the invariant that the theorem
  on \<open>open\<close> assumes, and the state of a fresh process has it.
\<close>

lemma storedDense_sendMessage [simp]: "storedDense (sendMessage r m st) v = storedDense st v"
  by (simp add: storedDense_def sendMessage_def)

lemma storedDense_setUserState [simp]: "storedDense (setUserState r s st) v = storedDense st v"
  by (simp add: storedDense_def setUserState_def)

lemma storedDense_browseWebpage:
  "storedDense (snd (browseWebpage e cfg url u st)) v = storedDense st v"
  by (simp add: storedDense_def browseWebpage_def Let_def split: sum.splits)

lemma storedDense_followLink:
  "storedDense (snd (followLink e cfg u n st)) v = storedDense st v"
  by (simp add: followLink_def Let_def storedDense_browseWebpage split: option.splits)

lemma storedDense_getMoreContent:
  "storedDense (snd (getMoreContent cfg u st)) v = storedDense st v"
  by (simp add: getMoreContent_def storedDense_def Let_def split: option.splits)

lemma storedDense_handleWebSearch:
  assumes "0 \<le> searchResultsLimit cfg" and "storedDense st v"
  shows "storedDense (handleWebSearch e cfg u q st) v"
proof -
  let ?st1 = "sendMessage u ([CHR 0xF0, CHR 0x9F, CHR 0x94, CHR 0x8D] @ '' Searching for: '' @
                [CHR 0x22] @ q @ [CHR 0x22] @ ''...'') st"
  have "storedDense (snd (searchWeb e cfg q u ?st1)) v"
    using assms by (intro storedDense_searchWeb) simp_all
  then show ?thesis
    by (cases "searchWeb e cfg q u ?st1") (auto simp: handleWebSearch_def Let_def split: sum.splits)
qed

lemma storedDense_handleOpenResult:
  "storedDense st v \<Longrightarrow> storedDense (handleOpenResult e cfg u n st) v"
proof (cases "getSearchResultById st u n")
  case None
  assume "storedDense st v"
  then show ?thesis using None by (simp add: handleOpenResult_def)
next
  case (Some r)
  let ?st1 = "sendMessage u ([CHR 0xF0, CHR 0x9F, CHR 0x93, CHR 0x84] @ '' Opening: '' @ [CHR 0x22] @
                        res_title r @ [CHR 0x22] @ ''...'') st"
  assume "storedDense st v"
  then have "storedDense (snd (browseWebpage e cfg (res_link r) u ?st1)) v"
    by (simp add: storedDense_browseWebpage)
  then show ?thesis using Some
    by (cases "browseWebpage e cfg (res_link r) u ?st1")
       (auto simp: handleOpenResult_def Let_def split: sum.splits)
qed

lemma storedDense_handleLinkCommand:
  "storedDense st v \<Longrightarrow> storedDense (handleLinkCommand e cfg u n st) v"
proof -
  let ?st1 = "sendMessage u ([CHR 0xF0, CHR 0x9F, CHR 0x94, CHR 0x97] @ '' Following link #'' @
                   show_num n @ ''...'') st"
  assume "storedDense st v"
  then have "storedDense (snd (followLink e cfg u n ?st1)) v"
    by (simp add: storedDense_followLink)
  then show ?thesis
    by (cases "followLink e cfg u n ?st1")
       (auto simp: handleLinkCommand_def Let_def split: sum.splits)
qed

lemma storedDense_handleMoreCommand:
  "storedDense st v \<Longrightarrow> storedDense (handleMoreCommand cfg u st) v"
proof -
  assume "storedDense st v"
  then have "storedDense (snd (getMoreContent cfg u st)) v"
    by (simp add: storedDense_getMoreContent)
  then show ?thesis
    by (cases "getMoreContent cfg u st") (auto simp: handleMoreCommand_def split: sum.splits)
qed

lemma storedDense_handleBackCommand:
  "0 \<le> searchResultsLimit cfg \<Longrightarrow> storedDense st v \<Longrightarrow>
   storedDense (handleBackCommand e cfg u st) v"
  by (auto simp: handleBackCommand_def storedDense_handleWebSearch split: option.splits)

lemma storedDense_handleSummarizeCommand:
  "storedDense st v \<Longrightarrow> storedDense (handleSummarizeCommand u st) v"
  by (auto simp: handleSummarizeCommand_def Let_def split: option.splits)

lemma storedDense_handleCommand:
  "0 \<le> searchResultsLimit cfg \<Longrightarrow> storedDense st v \<Longrightarrow>
   storedDense (snd (handleCommand e cfg u c args st)) v"
  by (auto simp: handleCommand_def Let_def exitBrowse_def storedDense_handleWebSearch
        storedDense_handleOpenResult storedDense_handleBackCommand storedDense_handleLinkCommand
        storedDense_handleMoreCommand storedDense_handleSummarizeCommand split: jsnum.splits)

lemma storedDense_handleDirectMessage:
  assumes "0 \<le> searchResultsLimit cfg" and "storedDense st v"
  shows "storedDense (snd (handleDirectMessage e cfg u msg st)) v"
proof -
  let ?st0 = "case userStates st u of None \<Rightarrow> setUserState u chat_session st | Some x \<Rightarrow> st"
  have "storedDense ?st0 v"
    using assms(2) by (cases "userStates st u") simp_all
  then show ?thesis
    using assms(1)
    by (simp add: handleDirectMessage_def Let_def exitBrowse_def storedDense_handleWebSearch
        storedDense_handleBackCommand storedDense_handleLinkCommand storedDense_handleMoreCommand
        storedDense_handleCommand)
qed

lemma storedDense_initial: "storedDense initial_state v"
  by (simp add: storedDense_def initial_state_def)

section \<open>Back after a page view\<close>

lemma handleDirectMessage_command:
  assumes "startsWith msg ''!''" and "userStates st u = Some us"
  shows "handleDirectMessage e cfg u msg st =
         handleCommand e cfg u (hd (split_ws (trim (drop 1 msg))))
           (tl (split_ws (trim (drop 1 msg)))) st"
  using assms by (simp add: handleDirectMessage_def Let_def)

lemma back_lower: "toLowerCase ''back'' = ''back''"
  by code_simp

lemma handleCommand_back:
  "handleCommand e cfg u ''back'' args st = (True, handleBackCommand e cfg u st)"
  by (simp add: handleCommand_def Let_def back_lower)

lemma sample_links:
  "extractLinks sample_env (Some sample_document) ''https://example.org/3'' =
     [\<lparr>link_text = ''Second page'', link_url = ''https://example.org/2''\<rparr>,
      \<lparr>link_text = ''First page'', link_url = ''https://example.org/1''\<rparr>]"
  by code_simp


lemma sample_page_links:
  "page_links (processArticle sample_env cfg (sample_article abc) ''https://example.org/3'') =
     Some [\<lparr>link_text = ''Second page'', link_url = ''https://example.org/2''\<rparr>,
           \<lparr>link_text = ''First page'', link_url = ''https://example.org/1''\<rparr>]"
  by (simp add: processArticle_def sample_article_def Let_def sample_links js_slice0_def)

lemma sample_page_url:
  "page_url (processArticle e cfg (sample_article abc) url) = url"
  by (simp add: processArticle_def sample_article_def Let_def)

lemma open3_parts:
  "startsWith ''!open 3'' ''!''"
  "hd (split_ws (trim ''open 3'')) = ''open''"
  "parseInt (first_arg (tl (split_ws (trim ''open 3'')))) = Num 3"
  by code_simp+

lemma opened_eq:
  "opened_state =
     handleOpenResult sample_env (default_config (Some ''key'')) ''u'' 3 searched_state"
  unfolding opened_state_def
  by (simp add: handleDirectMessage_command [OF open3_parts(1) searched_session] open3_parts(2)
        handleCommand_open [OF open3_parts(3)])

lemma opened_session:
  "userStates opened_state ''u'' =
     Some (no_session\<lparr>s_mode := Some Browse, s_lastAction := Some ActOpen,
                      s_currentUrl := Some ''https://example.org/3'', s_resultId := Some 3\<rparr>)"
  unfolding opened_eq
  using handleOpenResult_fetched [OF searched_third, of sample_env]
  by (simp add: sample_fetch_3)

lemma opened_content:
  "currentWebpageContent opened_state ''u'' =
     Some \<lparr>stored_url = ''https://example.org/3'',
           stored_content = processArticle sample_env (default_config (Some ''key''))
                              (sample_article ''xyz'') ''https://example.org/3''\<rparr>"
  unfolding opened_eq
  by (simp add: handleOpenResult_def searched_third browseWebpage_def sample_fetch_3 Let_def
        sendMessage_def setUserState_def)

lemma link2_parts:
  "\<not> startsWith ''link 2'' ''!''"
  "toLowerCase ''link 2'' \<noteq> ''back''"
  "toLowerCase ''link 2'' \<noteq> ''more''"
  "startsWith (toLowerCase ''link 2'') ''link ''"
  "parseInt (Some (trim ''2'')) = Num 2"
  by code_simp+

lemma followed_eq:
  "followed_state =
     handleLinkCommand sample_env (default_config (Some ''key'')) ''u'' (Num 2) opened_state"
  unfolding followed_state_def
  by (simp add: handleDirectMessage_def Let_def opened_session link2_parts no_session_def)

lemma sample_fetch_1: "readability sample_env ''https://example.org/1'' = Inr (sample_article ''abc'')"
  by (simp add: sample_env_def)

lemma followed_session:
  "userStates followed_state ''u'' =
     Some (no_session\<lparr>s_mode := Some Browse, s_lastAction := Some ActLink,
                      s_currentUrl := Some ''https://example.org/1'', s_resultId := Some 3\<rparr>)"
  unfolding followed_eq
  by (simp add: handleLinkCommand_def followLink_def opened_content sample_page_links
        browseWebpage_def sample_fetch_1 sample_page_url Let_def sendMessage_def setUserState_def
        opened_session no_session_def)

lemma back_parts:
  "startsWith ''!back'' ''!''"
  "hd (split_ws (trim ''back'')) = ''back''"
  by code_simp+


text \<open>
  Claim C1 at a concrete run. A user searches for \<open>climate change\<close> (five results),
  sends \<open>!open 3\<close> and then \<open>link 2\<close>. The session stores the query after the search,
  but \<open>handleOpenResult\<close> replaces the session by one without a query, and following a
  link copies that session. So \<open>!back\<close>, sent after the \<open>open\<close> or after the \<open>link\<close>, does
  not search again: it replies \<open>No search results available. Please try a new
  search.\<close> and resets the session to \<open>{mode: chat}\<close>.
\<close>

theorem back_after_open_finds_no_query:
  "map_option s_query (userStates searched_state ''u'') = Some (Some ''climate change'') \<and>
   map_option s_query (userStates opened_state ''u'') = Some None \<and>
   handleDirectMessage sample_env (default_config (Some ''key'')) ''u'' ''!back'' opened_state =
     (True, setUserState ''u'' chat_session
              (sendMessage ''u'' ''No search results available. Please try a new search.''
                 opened_state)) \<and>
   map_option s_query (userStates followed_state ''u'') = Some None \<and>
   handleDirectMessage sample_env (default_config (Some ''key'')) ''u'' ''!back'' followed_state =
     (True, setUserState ''u'' chat_session
              (sendMessage ''u'' ''No search results available. Please try a new search.''
                 followed_state))"
proof -
  have a: "handleBackCommand sample_env (default_config (Some ''key'')) ''u'' opened_state =
           setUserState ''u'' chat_session
              (sendMessage ''u'' ''No search results available. Please try a new search.''
                 opened_state)"
    by (rule handleBackCommand_no_query [OF opened_session]) (simp_all add: no_session_def)
  have b: "handleBackCommand sample_env (default_config (Some ''key'')) ''u'' followed_state =
           setUserState ''u'' chat_session
              (sendMessage ''u'' ''No search results available. Please try a new search.''
                 followed_state)"
    by (rule handleBackCommand_no_query [OF followed_session]) (simp_all add: no_session_def)
  show ?thesis
    by (simp add: searched_session opened_session followed_session no_session_def
          handleDirectMessage_command [OF back_parts(1) opened_session]
          handleDirectMessage_command [OF back_parts(1) followed_session]
          back_parts(2) handleCommand_back a b)
qed

section \<open>A new page and the old position; duplicate links\<close>

lemma browseWebpage_keeps_positions:
  "contentPositions (snd (browseWebpage e cfg url u st)) = contentPositions st"
  by (simp add: browseWebpage_def Let_def split: sum.splits)

lemma sample_text_xyz:
  "sample_text ''xyz'' = replicate 1000 CHR ''x'' @ replicate 1000 CHR ''y'' @ replicate 500 CHR ''z''"
  by (simp add: sample_text_def)

lemma viewing_content:
  "currentWebpageContent viewing_state ''u'' =
     Some \<lparr>stored_url = ''https://example.org/1'',
           stored_content = processArticle sample_env (default_config None)
                              (sample_article ''abc'') ''https://example.org/1''\<rparr>"
  by (simp add: viewing_state_def browseWebpage_def sample_fetch_1 initial_state_def Let_def)

lemma viewing_positions: "contentPositions viewing_state = Map.empty"
  by (simp add: viewing_state_def browseWebpage_keeps_positions initial_state_def)

lemma viewing_more:
  "fst (getMoreContent (default_config None) ''u'' viewing_state) = Inr (replicate 1000 CHR ''b'')"
  "contentPositions (snd (getMoreContent (default_config None) ''u'' viewing_state)) ''u'' = Some 2000"
  by (simp_all add: getMoreContent_def viewing_content viewing_positions sample_page_text
        sample_text_abc Let_def default_config_def substring_def clamp_index_def)

lemma sample_fetch_2: "readability sample_env ''https://example.org/2'' = Inr (sample_article ''xyz'')"
  by (simp add: sample_env_def)

lemma paged_content:
  "currentWebpageContent paged_state ''u'' =
     Some \<lparr>stored_url = ''https://example.org/2'',
           stored_content = processArticle sample_env (default_config None)
                              (sample_article ''xyz'') ''https://example.org/2''\<rparr>"
  by (simp add: paged_state_def browseWebpage_def sample_fetch_2 Let_def)

lemma paged_position: "contentPositions paged_state ''u'' = Some 2000"
  by (simp add: paged_state_def browseWebpage_keeps_positions viewing_more)

lemma paged_more:
  "fst (getMoreContent (default_config None) ''u'' paged_state) = Inr (replicate 500 CHR ''z'')"
  by (simp add: getMoreContent_def paged_content paged_position sample_page_text
        sample_text_xyz Let_def default_config_def substring_def clamp_index_def)

text \<open>
  Claim C2 at a concrete run, with the default summary length 1000. A user opens a
  page of 2500 code units and calls \<open>more\<close> once, which returns the code units from 1000
  to 2000 and leaves the position 2000. The user opens a second page of 2500 code
  units: \<open>browseWebpage\<close> replaces the stored content and leaves the position at 2000.
  The first \<open>more\<close> on the new page returns its code units from 2000 on, not those
  from 1000 to 2000.
\<close>

theorem more_after_new_page_uses_old_position:
  "fst (getMoreContent (default_config None) ''u'' viewing_state) = Inr (replicate 1000 CHR ''b'') \<and>
   map_option (page_fullTextContent \<circ> stored_content) (currentWebpageContent paged_state ''u'')
     = Some (Some (replicate 1000 CHR ''x'' @ replicate 1000 CHR ''y'' @ replicate 500 CHR ''z'')) \<and>
   contentPositions paged_state ''u'' = Some 2000 \<and>
   fst (getMoreContent (default_config None) ''u'' paged_state) = Inr (replicate 500 CHR ''z'') \<and>
   fst (getMoreContent (default_config None) ''u'' paged_state) \<noteq> Inr (replicate 1000 CHR ''y'')"
  by (simp add: viewing_more paged_content paged_position paged_more sample_page_text
        sample_text_xyz)

text \<open>
  Claim C7 at a concrete page of the reference-heavy site family. The main pass adds
  the external link of the reference list under its absolute URL
  \<open>https://example.com/\<close>. The citation pass tests the set of seen URLs with the \<open>href\<close>
  attribute as written, \<open>https://example.com\<close>, which is not in the set, and adds a
  second link with the same absolute URL.
\<close>

theorem extractLinks_duplicate_citation:
  "extractLinks wiki_env (Some wiki_document) wiki_base =
     [\<lparr>link_text = ''Example'', link_url = ''https://example.com/''\<rparr>,
      \<lparr>link_text = ''Example'', link_url = ''https://example.com/''\<rparr>] \<and>
   \<not> distinct (map link_url (extractLinks wiki_env (Some wiki_document) wiki_base))"
proof -
  have "extractLinks wiki_env (Some wiki_document) wiki_base =
     [\<lparr>link_text = ''Example'', link_url = ''https://example.com/''\<rparr>,
      \<lparr>link_text = ''Example'', link_url = ''https://example.com/''\<rparr>]"
    by code_simp
  then show ?thesis by simp
qed

subsection \<open>Repeated calls on the new page\<close>

lemma paged_full_text:
  "page_fullTextContent
     (stored_content \<lparr>stored_url = ''https://example.org/2'',
        stored_content = processArticle sample_env (default_config None)
                           (sample_article ''xyz'') ''https://example.org/2''\<rparr>)
   = Some (sample_text ''xyz'')"
  by (simp add: sample_page_text)

lemma paged_effective_position: "position (default_config None) paged_state ''u'' = 2000"
  by (simp add: position_def paged_position)

text \<open>
  Claim C5 at a concrete run, with the default summary length 1000. The user of the
  run above has a stored page of length 2500, whose first view showed the code units
  up to 1000, so the claim's count is \<open>(2500 - 1000)\<close> divided by 1000 and rounded up:
  two chunks that are not empty, the code units from 1000 to 2000 and those from 2000
  to 2500. The position 2000 left by the page before is still stored, and the
  successive calls of \<open>getMoreContent\<close> return one chunk only, the code units from 2000
  to 2500, and then the empty string.
\<close>

theorem more_sequence_after_new_page:
  "map_option (page_fullTextContent \<circ> stored_content) (currentWebpageContent paged_state ''u'')
     = Some (Some (replicate 1000 CHR ''x'' @ replicate 1000 CHR ''y'' @ replicate 500 CHR ''z'')) \<and>
   contentSummaryLength (default_config None) = 1000 \<and>
   fst (moreSequence (default_config None) ''u'' 3 paged_state) ! 0 = Inr (replicate 500 CHR ''z'') \<and>
   fst (moreSequence (default_config None) ''u'' 3 paged_state) ! 1 = Inr [] \<and>
   fst (moreSequence (default_config None) ''u'' 3 paged_state) ! 2 = Inr [] \<and>
   fst (moreSequence (default_config None) ''u'' 3 paged_state) ! 0 \<noteq> Inr (replicate 1000 CHR ''y'')"
proof -
  have c: "0 < contentSummaryLength (default_config None)"
    by (simp add: default_config_def)
  have p: "0 \<le> position (default_config None) paged_state ''u''"
    by (simp add: paged_effective_position)
  have nth: "fst (moreSequence (default_config None) ''u'' 3 paged_state) ! k =
             Inr (take 1000 (drop (2000 + k * 1000) (sample_text ''xyz'')))" if "k < 3" for k
  proof -
    have cn: "nat (contentSummaryLength (default_config None)) = 1000"
      by (simp add: default_config_def)
    have pn: "nat (position (default_config None) paged_state ''u'') = 2000"
      by (simp add: paged_effective_position)
    show ?thesis
      using moreSequence_nth [OF paged_content paged_full_text c p that]
      by (simp only: cn pn)
  qed
  have k0: "fst (moreSequence (default_config None) ''u'' 3 paged_state) ! 0 = Inr (replicate 500 CHR ''z'')"
    using nth [of 0] by (simp add: sample_text_xyz)
  have k1: "fst (moreSequence (default_config None) ''u'' 3 paged_state) ! 1 = Inr []"
    using nth [of 1] by (simp add: sample_text_xyz)
  have k2: "fst (moreSequence (default_config None) ''u'' 3 paged_state) ! 2 = Inr []"
    using nth [of 2] by (simp add: sample_text_xyz)
  have ft: "map_option (page_fullTextContent \<circ> stored_content)
               (currentWebpageContent paged_state ''u'')
     = Some (Some (replicate 1000 CHR ''x'' @ replicate 1000 CHR ''y'' @ replicate 500 CHR ''z''))"
    by (simp add: paged_content sample_page_text sample_text_xyz)
  have cl: "contentSummaryLength (default_config None) = 1000"
    by (simp add: default_config_def)
  have neq0: "fst (moreSequence (default_config None) ''u'' 3 paged_state) ! 0
            \<noteq> Inr (replicate 1000 CHR ''y'')"
    by (simp add: k0)
  show ?thesis
    using ft cl k0 k1 k2 neq0 by (intro conjI)
qed

end
